theory Spec2Isabelle
  imports Main
begin

text \<open>
  A shallow embedding of \<^verbatim>\<open>create-webhooks.ts\<close>, the script that puts one webhook with a
  given destination url on every GitLab repository of a manifest file. The functions of
  the script are HOL functions of the same names over an explicit world: the state of the
  remote server and the sequence of the calls made on the client so far. A rejected
  promise is the left summand of a result. The client is a parameter of every function, so
  what is proved about the calls of the script holds for every behaviour of the server;
  what is proved about the hooks on the server after a run is proved on an in-memory server.
  The repository holds the script a second time, written against an HTTP client, with a
  loop of its own over the pages of the projects of a group; it is embedded beside the
  first, its functions with the suffix \<open>_axios\<close>.
\<close>

section \<open>Data model of create-webhooks.ts\<close>

text \<open>
  The \<^verbatim>\<open>Webhook\<close> interface of the source. The optional fields of the interface
  (\<^verbatim>\<open>name\<close>, \<^verbatim>\<open>description\<close>, \<^verbatim>\<open>created_at\<close>, ...) are never read or written by the
  program and are left out; the program itself reads only \<^verbatim>\<open>id\<close> and \<^verbatim>\<open>url\<close>.
  The field \<^verbatim>\<open>id\<close> is called \<open>hook_id\<close> here, since \<open>id\<close> is the identity of HOL.
\<close>

record Webhook =
  hook_id :: nat
  url :: string
  push_events :: bool
  merge_requests_events :: bool
  issues_events :: bool
  enable_ssl_verification :: bool
  tag_push_events :: bool
  pipeline_events :: bool
  wiki_page_events :: bool
  deployment_events :: bool
  feature_flag_events :: bool
  job_events :: bool
  releases_events :: bool
  emoji_events :: bool
  resource_access_token_events :: bool
  vulnerability_events :: bool

text \<open>The \<^verbatim>\<open>Project\<close> interface; \<^verbatim>\<open>id\<close> is \<open>project_id\<close>.\<close>

record Project =
  project_id :: nat
  path_with_namespace :: string
  project_name :: string
  project_path :: string

text \<open>
  The anonymous result type \<^verbatim>\<open>{ groupPath: string; repoName: string }\<close> of
  \<^verbatim>\<open>getAllGroupRepositories\<close>.
\<close>

record Repository =
  repo_groupPath :: string
  repo_repoName :: string

text \<open>
  An object literal is an association list of property names and values, in the order in
  which the literal writes them; the only values the program puts into one are strings and
  booleans.
\<close>

datatype json = JString string | JBool bool

type_synonym object = "(string \<times> json) list"

text \<open>
  What a rejected promise carries: the status of the HTTP response, or a failure of the
  file system. The program never inspects the error, it only logs and rethrows it.
\<close>

datatype error = ApiError nat | FsError

section \<open>String primitives\<close>

text \<open>
  \<^verbatim>\<open>String.prototype.split\<close> with a one-character separator: the pieces between the
  separators, the empty string included, so the result is never empty
  (\<^verbatim>\<open>"".split("/")\<close> is \<^verbatim>\<open>[""]\<close>).
\<close>

fun js_split :: "char \<Rightarrow> string \<Rightarrow> string list" where
  "js_split sep [] = [[]]"
| "js_split sep (c # cs) =
     (if c = sep then [] # js_split sep cs
      else (case js_split sep cs of
              [] \<Rightarrow> [[c]]
            | part # parts \<Rightarrow> (c # part) # parts))"

text \<open>\<^verbatim>\<open>Array.prototype.join\<close> on an array of strings.\<close>

fun js_join :: "string \<Rightarrow> string list \<Rightarrow> string" where
  "js_join sep [] = []"
| "js_join sep [part] = part"
| "js_join sep (part # parts) = part @ sep @ js_join sep parts"

text \<open>
  \<^verbatim>\<open>String.prototype.trim\<close>: strings are lists of code units below 256 here, and the
  white space and line terminators of ECMAScript in that range are the code units
  9 to 13, 32 and 160.
\<close>

definition isWhiteSpace :: "char \<Rightarrow> bool" where
  "isWhiteSpace c = (of_char c \<in> {9, 10, 11, 12, 13, 32, 160 :: nat})"

definition js_trim :: "string \<Rightarrow> string" where
  "js_trim s = rev (dropWhile isWhiteSpace (rev (dropWhile isWhiteSpace s)))"

section \<open>The remote API and the record of its calls\<close>

text \<open>
  The calls the program makes on the GitLab client, with their arguments. A test double
  in place of the client observes exactly this sequence.
\<close>

datatype call =
    Get_Project_Hooks string
  | Delete_Project_Hook string nat
  | Create_Project_Hook string string object
  | Get_Group_Projects string bool nat
  | Get_Group_Projects_Page string nat nat bool
  | Get_Project string
  | Get_Hooks nat
  | Delete_Hook nat nat
  | Post_Hook nat object

text \<open>
  The client is a parameter: each method takes the state of the remote server and returns
  either the error the promise is rejected with or its value, and the new state of the
  server. Nothing is assumed about what a method does.
  \<^item> \<open>ProjectHooks_all projectPath\<close>
  \<^item> \<open>ProjectHooks_remove projectPath hookId\<close>
  \<^item> \<open>ProjectHooks_add projectPath url options\<close>
  \<^item> \<open>Groups_projects groupPath include_subgroups per_page\<close>
\<close>

record 's Gitlab =
  ProjectHooks_all :: "string \<Rightarrow> 's \<Rightarrow> (error + Webhook list) \<times> 's"
  ProjectHooks_remove :: "string \<Rightarrow> nat \<Rightarrow> 's \<Rightarrow> (error + unit) \<times> 's"
  ProjectHooks_add :: "string \<Rightarrow> string \<Rightarrow> object \<Rightarrow> 's \<Rightarrow> (error + Webhook) \<times> 's"
  Groups_projects :: "string \<Rightarrow> bool \<Rightarrow> nat \<Rightarrow> 's \<Rightarrow> (error + Project list) \<times> 's"

text \<open>
  The first program of \<^verbatim>\<open>src/unnamed/part_000\<close> is the same script written against
  an HTTP client (axios) in place of the client library. Its requests, again a parameter:
  \<^item> \<open>get_project projectPath\<close>: \<^verbatim>\<open>GET /projects/:projectPath\<close>, the path encoded by
    \<^verbatim>\<open>encodeURIComponent\<close>
  \<^item> \<open>get_project_hooks projectId\<close>: \<^verbatim>\<open>GET /projects/:projectId/hooks\<close>
  \<^item> \<open>delete_project_hook projectId hookId\<close>:
    \<^verbatim>\<open>DELETE /projects/:projectId/hooks/:hookId\<close>
  \<^item> \<open>post_project_hooks projectId body\<close>: \<^verbatim>\<open>POST /projects/:projectId/hooks\<close>
  \<^item> \<open>get_groups_projects groupPath page per_page include_subgroups\<close>:
    \<^verbatim>\<open>GET /groups/:groupPath/projects\<close> with these parameters
  The \<^verbatim>\<open>Project\<close> interface of this program has no \<^verbatim>\<open>path\<close>; the field is never read.
\<close>

record 's Axios =
  get_project :: "string \<Rightarrow> 's \<Rightarrow> (error + Project) \<times> 's"
  get_project_hooks :: "nat \<Rightarrow> 's \<Rightarrow> (error + Webhook list) \<times> 's"
  delete_project_hook :: "nat \<Rightarrow> nat \<Rightarrow> 's \<Rightarrow> (error + unit) \<times> 's"
  post_project_hooks :: "nat \<Rightarrow> object \<Rightarrow> 's \<Rightarrow> (error + Webhook) \<times> 's"
  get_groups_projects :: "string \<Rightarrow> nat \<Rightarrow> nat \<Rightarrow> bool \<Rightarrow> 's \<Rightarrow> (error + Project list) \<times> 's"

text \<open>The world of a run: the remote server and the calls issued so far, oldest first.\<close>

record 's world =
  server :: 's
  calls :: "call list"

text \<open>
  One awaited call on the client: it is recorded, runs on the server, and its outcome is
  returned. \<^verbatim>\<open>logApiCall\<close> of the source wraps such a call in console output and
  rethrows its error unchanged, so a call through \<^verbatim>\<open>logApiCall\<close> is a \<open>request\<close> too.
  Console output is not modelled.
\<close>

definition request :: "call \<Rightarrow> ('s \<Rightarrow> (error + 'a) \<times> 's) \<Rightarrow> 's world \<Rightarrow> (error + 'a) \<times> 's world" where
  "request c apiCall w =
     (case apiCall (server w) of
        (result, s) \<Rightarrow> (result, \<lparr>server = s, calls = calls w @ [c]\<rparr>))"

text \<open>The calls issued between two worlds of one run.\<close>

definition issued :: "'s world \<Rightarrow> 's world \<Rightarrow> call list" where
  "issued w w' = drop (length (calls w)) (calls w')"

section \<open>The reconciler\<close>

definition MASKED_WEBHOOK_PART :: string where
  "MASKED_WEBHOOK_PART = ''secret-token''"

text \<open>
  The object literal \<^verbatim>\<open>webhookConfig\<close> of \<^verbatim>\<open>createWebhook\<close>. \<open>encodedWebhookUrl\<close> is
  the module-level constant of the source, the environment variable \<^verbatim>\<open>WEBHOOK_URL\<close>
  unchanged; it is a parameter here.
\<close>

definition webhookConfig :: "string \<Rightarrow> object" where
  "webhookConfig encodedWebhookUrl =
     [(''url'', JString encodedWebhookUrl),
      (''push_events'', JBool True),
      (''merge_requests_events'', JBool True),
      (''issues_events'', JBool True),
      (''enable_ssl_verification'', JBool True),
      (''token'', JString MASKED_WEBHOOK_PART)]"

text \<open>
  \<^verbatim>\<open>createWebhook\<close>: fetch the hooks of the project, delete the one
  \<^verbatim>\<open>Array.prototype.find\<close> returns for \<^verbatim>\<open>hook.url === encodedWebhookUrl\<close> if there is
  one, then add the new hook. Every call is awaited, so a rejected call leaves the function
  at once; the \<^verbatim>\<open>catch\<close> block logs and rethrows.
\<close>

definition createWebhook :: "'s Gitlab \<Rightarrow> string \<Rightarrow> string \<Rightarrow> string \<Rightarrow> 's world \<Rightarrow> (error + Webhook) \<times> 's world" where
  "createWebhook api encodedWebhookUrl groupPath repoName w =
     (let projectPath = groupPath @ ''/'' @ repoName in
      case request (Get_Project_Hooks projectPath) (ProjectHooks_all api projectPath) w of
        (Inl e, w1) \<Rightarrow> (Inl e, w1)
      | (Inr existingWebhooks, w1) \<Rightarrow>
          (case (case find (\<lambda>hook. url hook = encodedWebhookUrl) existingWebhooks of
                   None \<Rightarrow> (Inr (), w1)
                 | Some existingWebhook \<Rightarrow>
                     request (Delete_Project_Hook projectPath (hook_id existingWebhook))
                       (ProjectHooks_remove api projectPath (hook_id existingWebhook)) w1) of
             (Inl e, w2) \<Rightarrow> (Inl e, w2)
           | (Inr u, w2) \<Rightarrow>
               request (Create_Project_Hook projectPath encodedWebhookUrl (webhookConfig encodedWebhookUrl))
                 (ProjectHooks_add api projectPath encodedWebhookUrl (webhookConfig encodedWebhookUrl)) w2))"

text \<open>
  \<^verbatim>\<open>getAllGroupRepositories\<close> of \<^verbatim>\<open>src/create-webhooks.ts\<close>: one call of the client
  library with \<^verbatim>\<open>include_subgroups: true, per_page: 100\<close>, then every project is
  turned into a group path and a repository name. \<^verbatim>\<open>parts.pop()\<close> takes the last
  element off \<^verbatim>\<open>parts\<close>; \<open>js_split\<close> never returns the empty array
  (lemma \<open>js_split_not_Nil\<close>), so \<open>last\<close> and \<open>butlast\<close> are what it does.
\<close>

definition getAllGroupRepositories :: "'s Gitlab \<Rightarrow> string \<Rightarrow> 's world \<Rightarrow> (error + Repository list) \<times> 's world" where
  "getAllGroupRepositories api groupPath w =
     (case request (Get_Group_Projects groupPath True 100) (Groups_projects api groupPath True 100) w of
        (Inl e, w1) \<Rightarrow> (Inl e, w1)
      | (Inr projects, w1) \<Rightarrow>
          (Inr (map (\<lambda>project.
                  let fullPath = path_with_namespace project;
                      parts = js_split CHR ''/'' fullPath;
                      repoName = last parts;
                      groupPath = js_join ''/'' (butlast parts)
                  in \<lparr>repo_groupPath = groupPath, repo_repoName = repoName\<rparr>) projects), w1))"

section \<open>The run over the manifest\<close>

text \<open>The inner loop \<^verbatim>\<open>for (const repo of repositories)\<close> of \<^verbatim>\<open>processRepositories\<close>.\<close>

fun createWebhooks :: "'s Gitlab \<Rightarrow> string \<Rightarrow> Repository list \<Rightarrow> 's world \<Rightarrow> (error + unit) \<times> 's world" where
  "createWebhooks api encodedWebhookUrl [] w = (Inr (), w)"
| "createWebhooks api encodedWebhookUrl (repo # repositories) w =
     (case createWebhook api encodedWebhookUrl (repo_groupPath repo) (repo_repoName repo) w of
        (Inl e, w1) \<Rightarrow> (Inl e, w1)
      | (Inr webhook, w1) \<Rightarrow> createWebhooks api encodedWebhookUrl repositories w1)"

text \<open>The body of the outer loop \<^verbatim>\<open>for (const line of lines)\<close>.\<close>

definition processLine :: "'s Gitlab \<Rightarrow> string \<Rightarrow> string \<Rightarrow> 's world \<Rightarrow> (error + unit) \<times> 's world" where
  "processLine api encodedWebhookUrl line w =
     (let parts = js_split CHR ''/'' line;
          repoName = last parts;
          groupPath = js_join ''/'' (butlast parts)
      in if repoName = ''*'' then
           (case getAllGroupRepositories api groupPath w of
              (Inl e, w1) \<Rightarrow> (Inl e, w1)
            | (Inr repositories, w1) \<Rightarrow> createWebhooks api encodedWebhookUrl repositories w1)
         else
           (case createWebhook api encodedWebhookUrl groupPath repoName w of
              (Inl e, w1) \<Rightarrow> (Inl e, w1)
            | (Inr webhook, w1) \<Rightarrow> (Inr (), w1)))"

fun processLines :: "'s Gitlab \<Rightarrow> string \<Rightarrow> string list \<Rightarrow> 's world \<Rightarrow> (error + unit) \<times> 's world" where
  "processLines api encodedWebhookUrl [] w = (Inr (), w)"
| "processLines api encodedWebhookUrl (line # lines) w =
     (case processLine api encodedWebhookUrl line w of
        (Inl e, w1) \<Rightarrow> (Inl e, w1)
      | (Inr u, w1) \<Rightarrow> processLines api encodedWebhookUrl lines w1)"

text \<open>
  \<^verbatim>\<open>processRepositories\<close>. \<open>file\<close> is what \<^verbatim>\<open>fs.readFileSync(REPOS_FILE, 'utf-8')\<close>
  returns or throws. The result is the exit status of the process: \<^verbatim>\<open>process.exit(1)\<close>
  in the \<^verbatim>\<open>catch\<close> block, and 0 when the function returns and the process ends by itself.
\<close>

definition processRepositories :: "'s Gitlab \<Rightarrow> string \<Rightarrow> error + string \<Rightarrow> 's world \<Rightarrow> nat \<times> 's world" where
  "processRepositories api encodedWebhookUrl file w =
     (case file of
        Inl e \<Rightarrow> (1, w)
      | Inr content \<Rightarrow>
          (let lines = filter (\<lambda>line. js_trim line \<noteq> []) (js_split (CHR 0x0A) content) in
           case processLines api encodedWebhookUrl lines w of
             (Inl e, w1) \<Rightarrow> (1, w1)
           | (Inr u, w1) \<Rightarrow> (0, w1)))"

section \<open>The program that pages by itself\<close>

text \<open>
  The functions of the first program of \<^verbatim>\<open>src/unnamed/part_000\<close>, with the suffix
  \<open>_axios\<close> where the name is that of a function of \<^verbatim>\<open>src/create-webhooks.ts\<close>.
  \<^verbatim>\<open>getProjectId\<close> looks the project up by its path and returns its \<^verbatim>\<open>id\<close>.
\<close>

definition getProjectId :: "'s Axios \<Rightarrow> string \<Rightarrow> 's world \<Rightarrow> (error + nat) \<times> 's world" where
  "getProjectId api projectPath w =
     (case request (Get_Project projectPath) (get_project api projectPath) w of
        (Inl e, w1) \<Rightarrow> (Inl e, w1)
      | (Inr data, w1) \<Rightarrow> (Inr (project_id data), w1))"

text \<open>
  \<^verbatim>\<open>createWebhook\<close>: as in \<^verbatim>\<open>src/create-webhooks.ts\<close>, with the project addressed by
  the numeric identifier that \<^verbatim>\<open>getProjectId\<close> has returned.
\<close>

definition createWebhook_axios :: "'s Axios \<Rightarrow> string \<Rightarrow> string \<Rightarrow> string \<Rightarrow> 's world \<Rightarrow> (error + Webhook) \<times> 's world" where
  "createWebhook_axios api encodedWebhookUrl groupPath repoName w =
     (let projectPath = groupPath @ ''/'' @ repoName in
      case getProjectId api projectPath w of
        (Inl e, w0) \<Rightarrow> (Inl e, w0)
      | (Inr projectId, w0) \<Rightarrow>
          (case request (Get_Hooks projectId) (get_project_hooks api projectId) w0 of
             (Inl e, w1) \<Rightarrow> (Inl e, w1)
           | (Inr existingWebhooks, w1) \<Rightarrow>
               (case (case find (\<lambda>hook. url hook = encodedWebhookUrl) existingWebhooks of
                        None \<Rightarrow> (Inr (), w1)
                      | Some existingWebhook \<Rightarrow>
                          request (Delete_Hook projectId (hook_id existingWebhook))
                            (delete_project_hook api projectId (hook_id existingWebhook)) w1) of
                  (Inl e, w2) \<Rightarrow> (Inl e, w2)
                | (Inr u, w2) \<Rightarrow>
                    request (Post_Hook projectId (webhookConfig encodedWebhookUrl))
                      (post_project_hooks api projectId (webhookConfig encodedWebhookUrl)) w2)))"

text \<open>
  \<^verbatim>\<open>getAllGroupRepositories\<close> of this program pages by itself. Its loop is \<^verbatim>\<open>while (true)\<close> and ends only at a page
  shorter than \<^verbatim>\<open>perPage\<close> or at a rejected request, so it is a partial function:
  \<open>None\<close> is the run that requests pages for ever.
\<close>

partial_function (option) fetchAllProjects :: "'s Axios \<Rightarrow> string \<Rightarrow> nat \<Rightarrow> nat \<Rightarrow> Project list \<Rightarrow> 's world \<Rightarrow> ((error + Project list) \<times> 's world) option" where
  "fetchAllProjects api groupPath perPage page allProjects w =
     (case request (Get_Group_Projects_Page groupPath page perPage True)
             (get_groups_projects api groupPath page perPage True) w of
        (Inl e, w1) \<Rightarrow> Some (Inl e, w1)
      | (Inr projects, w1) \<Rightarrow>
          (if length projects < perPage then Some (Inr (allProjects @ projects), w1)
           else fetchAllProjects api groupPath perPage (page + 1) (allProjects @ projects) w1))"

declare fetchAllProjects.simps [code]

definition getAllGroupRepositories_paged :: "'s Axios \<Rightarrow> string \<Rightarrow> 's world \<Rightarrow> ((error + Repository list) \<times> 's world) option" where
  "getAllGroupRepositories_paged api groupPath w =
     (case fetchAllProjects api groupPath 100 1 [] w of
        None \<Rightarrow> None
      | Some (Inl e, w1) \<Rightarrow> Some (Inl e, w1)
      | Some (Inr allProjects, w1) \<Rightarrow>
          Some (Inr (map (\<lambda>project.
                  let fullPath = path_with_namespace project;
                      parts = js_split CHR ''/'' fullPath;
                      repoName = last parts;
                      groupPath = js_join ''/'' (butlast parts)
                  in \<lparr>repo_groupPath = groupPath, repo_repoName = repoName\<rparr>) allProjects), w1))"

text \<open>
  The loops and \<^verbatim>\<open>processRepositories\<close> of this program. A line whose expansion requests
  pages for ever has no result, and neither has the run.
\<close>

fun createWebhooks_axios :: "'s Axios \<Rightarrow> string \<Rightarrow> Repository list \<Rightarrow> 's world \<Rightarrow> (error + unit) \<times> 's world" where
  "createWebhooks_axios api encodedWebhookUrl [] w = (Inr (), w)"
| "createWebhooks_axios api encodedWebhookUrl (repo # repositories) w =
     (case createWebhook_axios api encodedWebhookUrl (repo_groupPath repo) (repo_repoName repo) w of
        (Inl e, w1) \<Rightarrow> (Inl e, w1)
      | (Inr webhook, w1) \<Rightarrow> createWebhooks_axios api encodedWebhookUrl repositories w1)"

definition processLine_axios :: "'s Axios \<Rightarrow> string \<Rightarrow> string \<Rightarrow> 's world \<Rightarrow> ((error + unit) \<times> 's world) option" where
  "processLine_axios api encodedWebhookUrl line w =
     (let parts = js_split CHR ''/'' line;
          repoName = last parts;
          groupPath = js_join ''/'' (butlast parts)
      in if repoName = ''*'' then
           (case getAllGroupRepositories_paged api groupPath w of
              None \<Rightarrow> None
            | Some (Inl e, w1) \<Rightarrow> Some (Inl e, w1)
            | Some (Inr repositories, w1) \<Rightarrow> Some (createWebhooks_axios api encodedWebhookUrl repositories w1))
         else
           (case createWebhook_axios api encodedWebhookUrl groupPath repoName w of
              (Inl e, w1) \<Rightarrow> Some (Inl e, w1)
            | (Inr webhook, w1) \<Rightarrow> Some (Inr (), w1)))"

fun processLines_axios :: "'s Axios \<Rightarrow> string \<Rightarrow> string list \<Rightarrow> 's world \<Rightarrow> ((error + unit) \<times> 's world) option" where
  "processLines_axios api encodedWebhookUrl [] w = Some (Inr (), w)"
| "processLines_axios api encodedWebhookUrl (line # lines) w =
     (case processLine_axios api encodedWebhookUrl line w of
        None \<Rightarrow> None
      | Some (Inl e, w1) \<Rightarrow> Some (Inl e, w1)
      | Some (Inr u, w1) \<Rightarrow> processLines_axios api encodedWebhookUrl lines w1)"

definition processRepositories_axios :: "'s Axios \<Rightarrow> string \<Rightarrow> error + string \<Rightarrow> 's world \<Rightarrow> (nat \<times> 's world) option" where
  "processRepositories_axios api encodedWebhookUrl file w =
     (case file of
        Inl e \<Rightarrow> Some (1, w)
      | Inr content \<Rightarrow>
          (let lines = filter (\<lambda>line. js_trim line \<noteq> []) (js_split (CHR 0x0A) content) in
           case processLines_axios api encodedWebhookUrl lines w of
             None \<Rightarrow> None
           | Some (Inl e, w1) \<Rightarrow> Some (1, w1)
           | Some (Inr u, w1) \<Rightarrow> Some (0, w1)))"

section \<open>An in-memory server\<close>

text \<open>
  A test double for the remote server, used where a property is about the hooks that
  exist on the server after a run: the hooks of every project in the order of their
  creation, the projects of every group, and the next identifier the server assigns.
  A project or group the server does not know is answered with status 404.
\<close>

record memory =
  mem_hooks :: "string \<Rightarrow> Webhook list option"
  mem_groups :: "string \<Rightarrow> Project list option"
  mem_next_id :: nat

definition flag :: "object \<Rightarrow> string \<Rightarrow> bool" where
  "flag options k = (map_of options k = Some (JBool True))"

text \<open>The hook the server stores for a create request: the flags the request does not set are off.\<close>

definition stored_hook :: "nat \<Rightarrow> string \<Rightarrow> object \<Rightarrow> Webhook" where
  "stored_hook i u options =
     \<lparr>hook_id = i, url = u,
      push_events = flag options ''push_events'',
      merge_requests_events = flag options ''merge_requests_events'',
      issues_events = flag options ''issues_events'',
      enable_ssl_verification = flag options ''enable_ssl_verification'',
      tag_push_events = flag options ''tag_push_events'',
      pipeline_events = flag options ''pipeline_events'',
      wiki_page_events = flag options ''wiki_page_events'',
      deployment_events = flag options ''deployment_events'',
      feature_flag_events = flag options ''feature_flag_events'',
      job_events = flag options ''job_events'',
      releases_events = flag options ''releases_events'',
      emoji_events = flag options ''emoji_events'',
      resource_access_token_events = flag options ''resource_access_token_events'',
      vulnerability_events = flag options ''vulnerability_events''\<rparr>"

definition mem_all :: "string \<Rightarrow> memory \<Rightarrow> (error + Webhook list) \<times> memory" where
  "mem_all projectPath s =
     (case mem_hooks s projectPath of
        None \<Rightarrow> (Inl (ApiError 404), s)
      | Some hs \<Rightarrow> (Inr hs, s))"

definition mem_remove :: "string \<Rightarrow> nat \<Rightarrow> memory \<Rightarrow> (error + unit) \<times> memory" where
  "mem_remove projectPath hookId s =
     (case mem_hooks s projectPath of
        None \<Rightarrow> (Inl (ApiError 404), s)
      | Some hs \<Rightarrow>
          (if hookId \<in> set (map hook_id hs)
           then (Inr (), s\<lparr>mem_hooks := (mem_hooks s)(projectPath \<mapsto> filter (\<lambda>h. hook_id h \<noteq> hookId) hs)\<rparr>)
           else (Inl (ApiError 404), s)))"

definition mem_add :: "string \<Rightarrow> string \<Rightarrow> object \<Rightarrow> memory \<Rightarrow> (error + Webhook) \<times> memory" where
  "mem_add projectPath u options s =
     (case mem_hooks s projectPath of
        None \<Rightarrow> (Inl (ApiError 404), s)
      | Some hs \<Rightarrow>
          (let h = stored_hook (mem_next_id s) u options
           in (Inr h, s\<lparr>mem_hooks := (mem_hooks s)(projectPath \<mapsto> hs @ [h]),
                         mem_next_id := Suc (mem_next_id s)\<rparr>)))"

definition mem_projects :: "string \<Rightarrow> bool \<Rightarrow> nat \<Rightarrow> memory \<Rightarrow> (error + Project list) \<times> memory" where
  "mem_projects groupPath include_subgroups per_page s =
     (case mem_groups s groupPath of
        None \<Rightarrow> (Inl (ApiError 404), s)
      | Some ps \<Rightarrow> (Inr ps, s))"

definition mem_projects_page :: "string \<Rightarrow> nat \<Rightarrow> nat \<Rightarrow> bool \<Rightarrow> memory \<Rightarrow> (error + Project list) \<times> memory" where
  "mem_projects_page groupPath page per_page include_subgroups s =
     (case mem_groups s groupPath of
        None \<Rightarrow> (Inl (ApiError 404), s)
      | Some ps \<Rightarrow> (Inr (take per_page (drop ((page - 1) * per_page) ps)), s))"

definition memory_api :: "memory Gitlab" where
  "memory_api =
     \<lparr>ProjectHooks_all = mem_all,
      ProjectHooks_remove = mem_remove,
      ProjectHooks_add = mem_add,
      Groups_projects = mem_projects\<rparr>"

text \<open>The hooks of a project whose url is the given one.\<close>

definition matching :: "string \<Rightarrow> Webhook list \<Rightarrow> Webhook list" where
  "matching u hs = filter (\<lambda>hook. url hook = u) hs"

definition hooks_of :: "memory \<Rightarrow> string \<Rightarrow> Webhook list" where
  "hooks_of s projectPath = (case mem_hooks s projectPath of None \<Rightarrow> [] | Some hs \<Rightarrow> hs)"

section \<open>Observations on the record of calls\<close>

text \<open>The delete calls of a trace, as project path and hook identifier.\<close>

fun deletions :: "call list \<Rightarrow> (string \<times> nat) list" where
  "deletions [] = []"
| "deletions (Delete_Project_Hook projectPath hookId # cs) = (projectPath, hookId) # deletions cs"
| "deletions (c # cs) = deletions cs"

text \<open>The create calls of a trace, as project path, url and options.\<close>

fun creations :: "call list \<Rightarrow> (string \<times> string \<times> object) list" where
  "creations [] = []"
| "creations (Create_Project_Hook projectPath u options # cs) = (projectPath, u, options) # creations cs"
| "creations (c # cs) = creations cs"

text \<open>The queries of the project catalog in a trace, as group paths.\<close>

fun catalog_queries :: "call list \<Rightarrow> string list" where
  "catalog_queries [] = []"
| "catalog_queries (Get_Group_Projects groupPath include_subgroups per_page # cs) = groupPath # catalog_queries cs"
| "catalog_queries (Get_Group_Projects_Page groupPath page per_page include_subgroups # cs) = groupPath # catalog_queries cs"
| "catalog_queries (c # cs) = catalog_queries cs"

text \<open>
  \<open>serves api groupPath page pages s s'\<close>: from the server state \<open>s\<close>, the requests for the
  pages \<open>page\<close>, \<open>page + 1\<close>, ... of the projects of the group, each with 100 items per page
  and subgroups included, are answered with the lists \<open>pages\<close> in this order, the last of
  them is the first with fewer than 100 items, and the server is left in \<open>s'\<close>.
\<close>

fun serves :: "'s Axios \<Rightarrow> string \<Rightarrow> nat \<Rightarrow> Project list list \<Rightarrow> 's \<Rightarrow> 's \<Rightarrow> bool" where
  "serves api groupPath page [] s s' = False"
| "serves api groupPath page (ps # pages) s s' =
     (case get_groups_projects api groupPath page 100 True s of
        (Inl e, s1) \<Rightarrow> False
      | (Inr projects, s1) \<Rightarrow>
          projects = ps \<and>
          (if pages = [] then length ps < 100 \<and> s1 = s'
           else 100 \<le> length ps \<and> serves api groupPath (page + 1) pages s1 s'))"

section \<open>Example servers\<close>

text \<open>A hook as the server stores it for a request of this program with the given url.\<close>

definition hook :: "nat \<Rightarrow> string \<Rightarrow> Webhook" where
  "hook i u = stored_hook i u (webhookConfig u)"

text \<open>A server that knows the one project \<^verbatim>\<open>teamA/svcA\<close>, with the given hooks.\<close>

definition server_with :: "Webhook list \<Rightarrow> memory" where
  "server_with hs = \<lparr>mem_hooks = [''teamA/svcA'' \<mapsto> hs], mem_groups = Map.empty, mem_next_id = 10\<rparr>"

definition start :: "'s \<Rightarrow> 's world" where
  "start s = \<lparr>server = s, calls = []\<rparr>"

definition three_hooks :: "Webhook list" where
  "three_hooks = [hook 1 ''https://other.example.com'', hook 2 ''https://hooks.example.com/in'',
                  hook 3 ''https://hooks.example.com/in'']"

definition project :: "nat \<Rightarrow> string \<Rightarrow> Project" where
  "project i full = \<lparr>project_id = i, path_with_namespace = full,
     project_name = last (js_split CHR ''/'' full), project_path = last (js_split CHR ''/'' full)\<rparr>"

text \<open>
  The in-memory server behind the HTTP requests, for the given table of the identifiers
  and paths of its projects.
\<close>

definition memory_axios :: "(nat \<times> string) list \<Rightarrow> memory Axios" where
  "memory_axios table =
     \<lparr>get_project = (\<lambda>projectPath s.
        case find (\<lambda>entry. snd entry = projectPath) table of
          None \<Rightarrow> (Inl (ApiError 404), s)
        | Some entry \<Rightarrow> (Inr (project (fst entry) projectPath), s)),
      get_project_hooks = (\<lambda>projectId s.
        case map_of table projectId of
          None \<Rightarrow> (Inl (ApiError 404), s)
        | Some projectPath \<Rightarrow> mem_all projectPath s),
      delete_project_hook = (\<lambda>projectId hookId s.
        case map_of table projectId of
          None \<Rightarrow> (Inl (ApiError 404), s)
        | Some projectPath \<Rightarrow> mem_remove projectPath hookId s),
      post_project_hooks = (\<lambda>projectId body s.
        case map_of table projectId of
          None \<Rightarrow> (Inl (ApiError 404), s)
        | Some projectPath \<Rightarrow>
            (case map_of body ''url'' of
               Some (JString u) \<Rightarrow> mem_add projectPath u body s
             | _ \<Rightarrow> (Inl (ApiError 400), s))),
      get_groups_projects = mem_projects_page\<rparr>"

text \<open>A group of exactly 100 projects, the size of one full page.\<close>

definition full_server :: memory where
  "full_server =
     \<lparr>mem_hooks = [''full/a'' \<mapsto> []],
      mem_groups = [''full'' \<mapsto> replicate 100 (project 1 ''full/a'')],
      mem_next_id = 10\<rparr>"

definition teamB_server :: memory where
  "teamB_server =
     \<lparr>mem_hooks = [''teamA/svcA'' \<mapsto> [], ''teamB/sub/x'' \<mapsto> [], ''teamB/y'' \<mapsto> []],
      mem_groups = [''teamB'' \<mapsto> [project 1 ''teamB/sub/x'', project 2 ''teamB/y'']],
      mem_next_id = 10\<rparr>"

definition add_rejected_for :: "string \<Rightarrow> memory Gitlab" where
  "add_rejected_for projectPath =
     memory_api\<lparr>ProjectHooks_add := \<lambda>p u options s.
       if p = projectPath then (Inl (ApiError 500), s) else mem_add p u options s\<rparr>"

definition remove_rejected :: "memory Gitlab" where
  "remove_rejected = memory_api\<lparr>ProjectHooks_remove := \<lambda>p i s. (Inl (ApiError 403), s)\<rparr>"

definition teamB_server_hooked :: memory where
  "teamB_server_hooked =
     \<lparr>mem_hooks = [''teamA/svcA'' \<mapsto> [], ''teamB/sub/x'' \<mapsto> [],
                   ''teamB/y'' \<mapsto> [hook 5 ''https://hooks.example.com/in'']],
      mem_groups = [''teamB'' \<mapsto> [project 1 ''teamB/sub/x'', project 2 ''teamB/y'']],
      mem_next_id = 10\<rparr>"

definition manifest_direct :: string where
  "manifest_direct = ''teamA/svcA'' @ [CHR 0x0A] @ ''teamB/y'' @ [CHR 0x0A] @ ''teamA/svcA''"

definition manifest_wildcard :: string where
  "manifest_wildcard = ''teamB/*'' @ [CHR 0x0A] @ ''teamA/svcA''"

definition big_server :: memory where
  "big_server =
     \<lparr>mem_hooks = Map.empty,
      mem_groups = [''big'' \<mapsto> replicate 100 (project 1 ''big/a'') @ [project 2 ''big/sub/b'']],
      mem_next_id = 10\<rparr>"

section \<open>Splitting and joining paths\<close>

lemma js_split_not_Nil: "js_split sep s \<noteq> []"
  by (induction s) (auto split: list.splits)

lemma js_join_Cons: "parts \<noteq> [] \<Longrightarrow> js_join sep (part # parts) = part @ sep @ js_join sep parts"
  by (cases parts) auto

lemma js_join_js_split: "js_join [sep] (js_split sep s) = s"
proof (induction s)
  case Nil
  show ?case by simp
next
  case (Cons c cs)
  obtain part parts where sp: "js_split sep cs = part # parts"
    using js_split_not_Nil [of sep cs] by (cases "js_split sep cs") auto
  show ?case
  proof (cases "c = sep")
    case True
    then show ?thesis using Cons.IH by (simp add: js_join_Cons js_split_not_Nil)
  next
    case False
    then show ?thesis using Cons.IH sp by (cases parts) auto
  qed
qed

lemma js_split_no_sep: "sep \<notin> set s \<Longrightarrow> js_split sep s = [s]"
  by (induction s) auto

lemma js_split_parts_no_sep: "part \<in> set (js_split sep s) \<Longrightarrow> sep \<notin> set part"
proof (induction s arbitrary: part)
  case Nil
  then show ?case by simp
next
  case (Cons c cs)
  then show ?case
    by (cases "js_split sep cs") (auto split: if_splits)
qed

lemma js_split_length: "sep \<in> set s \<Longrightarrow> 2 \<le> length (js_split sep s)"
proof (induction s)
  case Nil
  then show ?case by simp
next
  case (Cons c cs)
  then show ?case
    using js_split_not_Nil [of sep cs]
    by (cases "js_split sep cs") (auto split: if_splits)
qed

lemma js_join_butlast_last:
  "2 \<le> length parts \<Longrightarrow> js_join sep (butlast parts) @ sep @ last parts = js_join sep parts"
proof (induction parts)
  case Nil
  then show ?case by simp
next
  case (Cons part parts)
  show ?case
  proof (cases "2 \<le> length parts")
    case True
    then have "parts \<noteq> []" "butlast parts \<noteq> []" by (auto simp: butlast_conv_take)
    then show ?thesis using Cons.IH [OF True] by (simp add: js_join_Cons)
  next
    case False
    then obtain p where "parts = [p]" using Cons.prems
      by (cases parts) (auto simp: Suc_le_eq)
    then show ?thesis by simp
  qed
qed

lemma path_rejoined:
  "CHR ''/'' \<in> set s \<Longrightarrow>
   js_join ''/'' (butlast (js_split CHR ''/'' s)) @ ''/'' @ last (js_split CHR ''/'' s) = s"
  using js_join_butlast_last [OF js_split_length, of "CHR ''/''" s "''/''"] js_join_js_split [of "CHR ''/''" s]
  by simp

section \<open>The calls of one reconciliation\<close>

lemma createWebhook_fetch_fails:
  assumes "ProjectHooks_all api (groupPath @ ''/'' @ repoName) (server w) = (Inl e, s1)"
  shows "createWebhook api dest groupPath repoName w =
           (Inl e, \<lparr>server = s1, calls = calls w @ [Get_Project_Hooks (groupPath @ ''/'' @ repoName)]\<rparr>)"
  using assms by (simp add: createWebhook_def request_def Let_def)

lemma createWebhook_no_match:
  assumes "ProjectHooks_all api (groupPath @ ''/'' @ repoName) (server w) = (Inr hs, s1)"
    and "find (\<lambda>hook. url hook = dest) hs = None"
    and "ProjectHooks_add api (groupPath @ ''/'' @ repoName) dest (webhookConfig dest) s1 = (r, s2)"
  shows "createWebhook api dest groupPath repoName w =
           (r, \<lparr>server = s2, calls = calls w @
                  [Get_Project_Hooks (groupPath @ ''/'' @ repoName),
                   Create_Project_Hook (groupPath @ ''/'' @ repoName) dest (webhookConfig dest)]\<rparr>)"
  using assms by (simp add: createWebhook_def request_def Let_def)

lemma createWebhook_delete_fails:
  assumes "ProjectHooks_all api (groupPath @ ''/'' @ repoName) (server w) = (Inr hs, s1)"
    and "find (\<lambda>hook. url hook = dest) hs = Some h"
    and "ProjectHooks_remove api (groupPath @ ''/'' @ repoName) (hook_id h) s1 = (Inl e, s2)"
  shows "createWebhook api dest groupPath repoName w =
           (Inl e, \<lparr>server = s2, calls = calls w @
                  [Get_Project_Hooks (groupPath @ ''/'' @ repoName),
                   Delete_Project_Hook (groupPath @ ''/'' @ repoName) (hook_id h)]\<rparr>)"
  using assms by (simp add: createWebhook_def request_def Let_def)

lemma createWebhook_match:
  assumes "ProjectHooks_all api (groupPath @ ''/'' @ repoName) (server w) = (Inr hs, s1)"
    and "find (\<lambda>hook. url hook = dest) hs = Some h"
    and "ProjectHooks_remove api (groupPath @ ''/'' @ repoName) (hook_id h) s1 = (Inr u, s2)"
    and "ProjectHooks_add api (groupPath @ ''/'' @ repoName) dest (webhookConfig dest) s2 = (r, s3)"
  shows "createWebhook api dest groupPath repoName w =
           (r, \<lparr>server = s3, calls = calls w @
                  [Get_Project_Hooks (groupPath @ ''/'' @ repoName),
                   Delete_Project_Hook (groupPath @ ''/'' @ repoName) (hook_id h),
                   Create_Project_Hook (groupPath @ ''/'' @ repoName) dest (webhookConfig dest)]\<rparr>)"
  using assms by (simp add: createWebhook_def request_def Let_def)

text \<open>The four ways through \<open>createWebhook\<close>, as one case distinction.\<close>

lemma createWebhook_cases:
  obtains (fetch_fails) e s1 where
      "ProjectHooks_all api (groupPath @ ''/'' @ repoName) (server w) = (Inl e, s1)"
  | (no_match) hs s1 r s2 where
      "ProjectHooks_all api (groupPath @ ''/'' @ repoName) (server w) = (Inr hs, s1)"
      "find (\<lambda>hook. url hook = dest) hs = None"
      "ProjectHooks_add api (groupPath @ ''/'' @ repoName) dest (webhookConfig dest) s1 = (r, s2)"
  | (delete_fails) hs s1 h e s2 where
      "ProjectHooks_all api (groupPath @ ''/'' @ repoName) (server w) = (Inr hs, s1)"
      "find (\<lambda>hook. url hook = dest) hs = Some h"
      "ProjectHooks_remove api (groupPath @ ''/'' @ repoName) (hook_id h) s1 = (Inl e, s2)"
  | (match) hs s1 h u s2 r s3 where
      "ProjectHooks_all api (groupPath @ ''/'' @ repoName) (server w) = (Inr hs, s1)"
      "find (\<lambda>hook. url hook = dest) hs = Some h"
      "ProjectHooks_remove api (groupPath @ ''/'' @ repoName) (hook_id h) s1 = (Inr u, s2)"
      "ProjectHooks_add api (groupPath @ ''/'' @ repoName) dest (webhookConfig dest) s2 = (r, s3)"
proof -
  obtain r0 s1 where f: "ProjectHooks_all api (groupPath @ ''/'' @ repoName) (server w) = (r0, s1)"
    by (cases "ProjectHooks_all api (groupPath @ ''/'' @ repoName) (server w)")
  show ?thesis
  proof (cases r0)
    case (Inl e)
    then show ?thesis using f fetch_fails by simp
  next
    case (Inr hs)
    show ?thesis
    proof (cases "find (\<lambda>hook. url hook = dest) hs")
      case None
      obtain r s2 where "ProjectHooks_add api (groupPath @ ''/'' @ repoName) dest (webhookConfig dest) s1 = (r, s2)"
        by (cases "ProjectHooks_add api (groupPath @ ''/'' @ repoName) dest (webhookConfig dest) s1")
      then show ?thesis using f Inr None no_match by simp
    next
      case (Some h)
      obtain r1 s2 where d: "ProjectHooks_remove api (groupPath @ ''/'' @ repoName) (hook_id h) s1 = (r1, s2)"
        by (cases "ProjectHooks_remove api (groupPath @ ''/'' @ repoName) (hook_id h) s1")
      show ?thesis
      proof (cases r1)
        case (Inl e)
        then show ?thesis using f Inr Some d delete_fails by simp
      next
        case r1: (Inr u)
        obtain r s3 where "ProjectHooks_add api (groupPath @ ''/'' @ repoName) dest (webhookConfig dest) s2 = (r, s3)"
          by (cases "ProjectHooks_add api (groupPath @ ''/'' @ repoName) dest (webhookConfig dest) s2")
        then show ?thesis using f Inr Some d r1 match by simp
      qed
    qed
  qed
qed

lemma find_first_match:
  "find P xs = Some x \<Longrightarrow> \<exists>pre post. xs = pre @ x # post \<and> P x \<and> (\<forall>y\<in>set pre. \<not> P y)"
proof (induction xs)
  case Nil
  then show ?case by simp
next
  case (Cons a xs)
  show ?case
  proof (cases "P a")
    case True
    then have "a = x" using Cons.prems by simp
    then have "a # xs = [] @ x # xs \<and> P x \<and> (\<forall>y\<in>set []. \<not> P y)" using True by simp
    then show ?thesis by blast
  next
    case False
    then have "find P xs = Some x" using Cons.prems by simp
    then obtain pre post where "xs = pre @ x # post" "P x" "\<forall>y\<in>set pre. \<not> P y"
      using Cons.IH by blast
    then have "a # xs = (a # pre) @ x # post \<and> P x \<and> (\<forall>y\<in>set (a # pre). \<not> P y)"
      using False by simp
    then show ?thesis by blast
  qed
qed

lemma find_split:
  "(\<forall>y\<in>set pre. \<not> P y) \<Longrightarrow> P x \<Longrightarrow> find P (pre @ x # post) = Some x"
  by (induction pre) auto

section \<open>One reconciliation on the in-memory server\<close>

lemma find_Some_in_set: "find P xs = Some x \<Longrightarrow> x \<in> set xs \<and> P x"
  using find_first_match [of P xs x] by auto

lemma memory_createWebhook:
  assumes "mem_hooks (server w) (groupPath @ ''/'' @ repoName) = Some hs"
  shows "createWebhook memory_api dest groupPath repoName w =
    (Inr (stored_hook (mem_next_id (server w)) dest (webhookConfig dest)),
     \<lparr>server = (server w)\<lparr>mem_hooks := (mem_hooks (server w))(groupPath @ ''/'' @ repoName \<mapsto>
                   (case find (\<lambda>hook. url hook = dest) hs of
                      None \<Rightarrow> hs
                    | Some h \<Rightarrow> filter (\<lambda>x. hook_id x \<noteq> hook_id h) hs) @
                   [stored_hook (mem_next_id (server w)) dest (webhookConfig dest)]),
                mem_next_id := Suc (mem_next_id (server w))\<rparr>,
      calls = calls w @ [Get_Project_Hooks (groupPath @ ''/'' @ repoName)] @
              (case find (\<lambda>hook. url hook = dest) hs of
                 None \<Rightarrow> []
               | Some h \<Rightarrow> [Delete_Project_Hook (groupPath @ ''/'' @ repoName) (hook_id h)]) @
              [Create_Project_Hook (groupPath @ ''/'' @ repoName) dest (webhookConfig dest)]\<rparr>)"
proof (cases "find (\<lambda>hook. url hook = dest) hs")
  case None
  have f: "ProjectHooks_all memory_api (groupPath @ ''/'' @ repoName) (server w) = (Inr hs, server w)"
    using assms by (simp add: memory_api_def mem_all_def)
  have a: "ProjectHooks_add memory_api (groupPath @ ''/'' @ repoName) dest (webhookConfig dest) (server w) =
      (Inr (stored_hook (mem_next_id (server w)) dest (webhookConfig dest)),
       (server w)\<lparr>mem_hooks := (mem_hooks (server w))(groupPath @ ''/'' @ repoName \<mapsto>
                     hs @ [stored_hook (mem_next_id (server w)) dest (webhookConfig dest)]),
                  mem_next_id := Suc (mem_next_id (server w))\<rparr>)"
    using assms by (simp add: memory_api_def mem_add_def Let_def)
  show ?thesis
    using createWebhook_no_match [OF f None a] None by simp
next
  case (Some h)
  let ?p = "groupPath @ ''/'' @ repoName"
  let ?s2 = "(server w)\<lparr>mem_hooks := (mem_hooks (server w))(?p \<mapsto> filter (\<lambda>x. hook_id x \<noteq> hook_id h) hs)\<rparr>"
  have f: "ProjectHooks_all memory_api ?p (server w) = (Inr hs, server w)"
    using assms by (simp add: memory_api_def mem_all_def)
  have "h \<in> set hs" using find_Some_in_set [OF Some] by simp
  then have d: "ProjectHooks_remove memory_api ?p (hook_id h) (server w) = (Inr (), ?s2)"
    using assms by (simp add: memory_api_def mem_remove_def)
  have a: "ProjectHooks_add memory_api ?p dest (webhookConfig dest) ?s2 =
      (Inr (stored_hook (mem_next_id (server w)) dest (webhookConfig dest)),
       (server w)\<lparr>mem_hooks := (mem_hooks (server w))(?p \<mapsto>
                     filter (\<lambda>x. hook_id x \<noteq> hook_id h) hs @ [stored_hook (mem_next_id (server w)) dest (webhookConfig dest)]),
                  mem_next_id := Suc (mem_next_id (server w))\<rparr>)"
    by (simp add: memory_api_def mem_add_def Let_def)
  show ?thesis
    using createWebhook_match [OF f Some d a] Some by simp
qed

lemma memory_createWebhook_unknown:
  assumes "mem_hooks (server w) (groupPath @ ''/'' @ repoName) = None"
  shows "createWebhook memory_api dest groupPath repoName w =
    (Inl (ApiError 404), \<lparr>server = server w, calls = calls w @ [Get_Project_Hooks (groupPath @ ''/'' @ repoName)]\<rparr>)"
proof -
  have "ProjectHooks_all memory_api (groupPath @ ''/'' @ repoName) (server w) = (Inl (ApiError 404), server w)"
    using assms by (simp add: memory_api_def mem_all_def)
  then show ?thesis by (rule createWebhook_fetch_fails)
qed

lemma url_stored_hook: "url (stored_hook i u options) = u"
  by (simp add: stored_hook_def)

lemma filter_other_ids:
  assumes "distinct (map hook_id (pre @ h # post))"
  shows "filter (\<lambda>x. hook_id x \<noteq> hook_id h) (pre @ h # post) = pre @ post"
proof -
  have "\<forall>x\<in>set pre. hook_id x \<noteq> hook_id h" "\<forall>x\<in>set post. hook_id x \<noteq> hook_id h"
    using assms by (auto simp: image_iff)
  then show ?thesis by simp
qed

lemma filter_nonmatching_other_ids:
  assumes "distinct (map hook_id hs)" and "h \<in> set hs" and "url h = dest"
  shows "filter (\<lambda>x. url x \<noteq> dest) (filter (\<lambda>x. hook_id x \<noteq> hook_id h) hs) = filter (\<lambda>x. url x \<noteq> dest) hs"
proof -
  have inj: "inj_on hook_id (set hs)" using assms(1) by (simp add: distinct_map)
  have "\<And>x. x \<in> set hs \<Longrightarrow> (hook_id x \<noteq> hook_id h \<and> url x \<noteq> dest) = (url x \<noteq> dest)"
    using inj assms(2,3) by (auto dest: inj_onD)
  then show ?thesis by (simp cong: filter_cong)
qed

lemma matching_at_most_one:
  assumes "length (matching dest hs) \<le> 1" and "h \<in> set hs" and "url h = dest"
  shows "matching dest (filter (\<lambda>x. hook_id x \<noteq> hook_id h) hs) = []"
proof -
  have "h \<in> set (matching dest hs)" using assms(2,3) by (simp add: matching_def)
  then have "matching dest hs = [h]" using assms(1)
    by (cases "matching dest hs") auto
  moreover have "matching dest (filter (\<lambda>x. hook_id x \<noteq> hook_id h) hs) =
      filter (\<lambda>x. hook_id x \<noteq> hook_id h) (matching dest hs)"
    by (simp add: matching_def conj_commute)
  ultimately show ?thesis by simp
qed

lemma memory_run_leaves_one:
  assumes "mem_hooks (server w) (groupPath @ ''/'' @ repoName) = Some hs"
    and "length (matching dest hs) \<le> 1"
  shows "\<exists>webhook hs'. fst (createWebhook memory_api dest groupPath repoName w) = Inr webhook \<and>
      mem_hooks (server (snd (createWebhook memory_api dest groupPath repoName w))) (groupPath @ ''/'' @ repoName) = Some hs' \<and>
      length (matching dest hs') = 1"
proof (cases "find (\<lambda>hook. url hook = dest) hs")
  case None
  then have "matching dest hs = []"
    by (simp add: matching_def find_None_iff filter_empty_conv)
  then show ?thesis
    using None by (simp add: memory_createWebhook [OF assms(1)] matching_def url_stored_hook)
next
  case (Some h)
  have "matching dest (filter (\<lambda>x. hook_id x \<noteq> hook_id h) hs) = []"
    using matching_at_most_one [OF assms(2)] find_Some_in_set [OF Some] by simp
  then show ?thesis
    using Some by (simp add: memory_createWebhook [OF assms(1)] matching_def url_stored_hook)
qed

lemma url_hook: "url (hook i u) = u"
  by (simp add: hook_def stored_hook_def)

lemma hook_id_hook: "hook_id (hook i u) = i"
  by (simp add: hook_def stored_hook_def)

lemmas eval_defs =
  createWebhook_def request_def issued_def Let_def memory_api_def mem_all_def mem_remove_def
  mem_add_def mem_projects_def mem_projects_page_def server_with_def start_def
  hooks_of_def matching_def url_hook hook_id_hook hook_def [symmetric]

section \<open>The request that creates a hook\<close>

text \<open>
  C6. Every create call that \<open>createWebhook\<close> issues is for the project
  \<open>groupPath/repoName\<close>, carries the destination url unchanged, and its options are exactly
  the url, push events, merge request events, issues events and SSL verification, all four
  on, and the token \<^verbatim>\<open>secret-token\<close>, a constant of the program; no other property is
  set. A run of \<open>createWebhook\<close> that returns a hook has issued exactly one such call.
\<close>

theorem created_hook_request_is_fixed:
  "(\<forall>(projectPath, u, options) \<in> set (creations (issued w (snd (createWebhook api dest groupPath repoName w)))).
      projectPath = groupPath @ ''/'' @ repoName \<and> u = dest \<and>
      options = [(''url'', JString dest), (''push_events'', JBool True),
                 (''merge_requests_events'', JBool True), (''issues_events'', JBool True),
                 (''enable_ssl_verification'', JBool True), (''token'', JString ''secret-token'')]) \<and>
   (\<forall>webhook. fst (createWebhook api dest groupPath repoName w) = Inr webhook \<longrightarrow>
      creations (issued w (snd (createWebhook api dest groupPath repoName w))) =
        [(groupPath @ ''/'' @ repoName, dest,
          [(''url'', JString dest), (''push_events'', JBool True),
           (''merge_requests_events'', JBool True), (''issues_events'', JBool True),
           (''enable_ssl_verification'', JBool True), (''token'', JString ''secret-token'')])])"
proof (cases rule: createWebhook_cases [where api = api and groupPath = groupPath and repoName = repoName and w = w and dest = dest])
  case (fetch_fails e s1)
  show ?thesis
    by (simp add: createWebhook_fetch_fails [OF fetch_fails] issued_def)
next
  case (no_match hs s1 r s2)
  show ?thesis
    by (simp add: createWebhook_no_match [OF no_match] issued_def webhookConfig_def MASKED_WEBHOOK_PART_def)
next
  case (delete_fails hs s1 h e s2)
  show ?thesis
    by (simp add: createWebhook_delete_fails [OF delete_fails] issued_def)
next
  case (match hs s1 h u s2 r s3)
  show ?thesis
    by (simp add: createWebhook_match [OF match] issued_def webhookConfig_def MASKED_WEBHOOK_PART_def)
qed


theorem created_hook_request_is_fixed_witness:
  "fst (createWebhook memory_api ''https://hooks.example.com/in'' ''teamA'' ''svcA'' (start (server_with []))) =
     Inr (hook 10 ''https://hooks.example.com/in'') \<and>
   creations (issued (start (server_with []))
     (snd (createWebhook memory_api ''https://hooks.example.com/in'' ''teamA'' ''svcA'' (start (server_with []))))) =
     [(''teamA/svcA'', ''https://hooks.example.com/in'',
       [(''url'', JString ''https://hooks.example.com/in''), (''push_events'', JBool True),
        (''merge_requests_events'', JBool True), (''issues_events'', JBool True),
        (''enable_ssl_verification'', JBool True), (''token'', JString ''secret-token'')])]"
  using created_hook_request_is_fixed [of "start (server_with [])" memory_api
      "''https://hooks.example.com/in''" "''teamA''" "''svcA''"]
  by (simp add: createWebhook_def request_def issued_def Let_def memory_api_def mem_all_def mem_add_def
      server_with_def start_def hook_def webhookConfig_def MASKED_WEBHOOK_PART_def)

section \<open>Delete before create\<close>

text \<open>
  C3. In one run of \<open>createWebhook\<close> whose fetch returns the hooks \<open>hs\<close>: if a hook of
  \<open>hs\<close> has the destination url, the calls issued are the fetch, then the delete of such a
  hook by its id, and the create call follows only when the delete has returned without
  error; if no hook of \<open>hs\<close> has the destination url, the calls issued are the fetch and
  the create call, and no delete. The test is equality of the two strings.
\<close>

theorem delete_completes_before_create:
  assumes "ProjectHooks_all api (groupPath @ ''/'' @ repoName) (server w) = (Inr hs, s1)"
  shows "((\<exists>hook\<in>set hs. url hook = dest) \<longrightarrow>
            (\<exists>existingWebhook\<in>set hs. url existingWebhook = dest \<and>
               issued w (snd (createWebhook api dest groupPath repoName w)) =
                 (case ProjectHooks_remove api (groupPath @ ''/'' @ repoName) (hook_id existingWebhook) s1 of
                    (Inl e, s2) \<Rightarrow>
                      [Get_Project_Hooks (groupPath @ ''/'' @ repoName),
                       Delete_Project_Hook (groupPath @ ''/'' @ repoName) (hook_id existingWebhook)]
                  | (Inr u, s2) \<Rightarrow>
                      [Get_Project_Hooks (groupPath @ ''/'' @ repoName),
                       Delete_Project_Hook (groupPath @ ''/'' @ repoName) (hook_id existingWebhook),
                       Create_Project_Hook (groupPath @ ''/'' @ repoName) dest (webhookConfig dest)]))) \<and>
         ((\<forall>hook\<in>set hs. url hook \<noteq> dest) \<longrightarrow>
            issued w (snd (createWebhook api dest groupPath repoName w)) =
              [Get_Project_Hooks (groupPath @ ''/'' @ repoName),
               Create_Project_Hook (groupPath @ ''/'' @ repoName) dest (webhookConfig dest)])"
proof (cases "find (\<lambda>hook. url hook = dest) hs")
  case None
  obtain r s2 where a: "ProjectHooks_add api (groupPath @ ''/'' @ repoName) dest (webhookConfig dest) s1 = (r, s2)"
    by (cases "ProjectHooks_add api (groupPath @ ''/'' @ repoName) dest (webhookConfig dest) s1")
  have "\<forall>hook\<in>set hs. url hook \<noteq> dest" using None by (simp add: find_None_iff)
  then show ?thesis
    by (auto simp: createWebhook_no_match [OF assms None a] issued_def)
next
  case (Some h)
  let ?p = "groupPath @ ''/'' @ repoName"
  have h: "h \<in> set hs" "url h = dest" using find_Some_in_set [OF Some] by simp_all
  obtain r1 s2 where d: "ProjectHooks_remove api ?p (hook_id h) s1 = (r1, s2)"
    by (cases "ProjectHooks_remove api ?p (hook_id h) s1")
  have "issued w (snd (createWebhook api dest groupPath repoName w)) =
          (case ProjectHooks_remove api ?p (hook_id h) s1 of
             (Inl e, s2) \<Rightarrow> [Get_Project_Hooks ?p, Delete_Project_Hook ?p (hook_id h)]
           | (Inr u, s2) \<Rightarrow> [Get_Project_Hooks ?p, Delete_Project_Hook ?p (hook_id h),
                              Create_Project_Hook ?p dest (webhookConfig dest)])"
  proof (cases r1)
    case (Inl e)
    show ?thesis
      using d Inl by (simp add: createWebhook_delete_fails [OF assms Some d [unfolded Inl]] issued_def)
  next
    case (Inr u)
    obtain r s3 where a: "ProjectHooks_add api ?p dest (webhookConfig dest) s2 = (r, s3)"
      by (cases "ProjectHooks_add api ?p dest (webhookConfig dest) s2")
    show ?thesis
      using d Inr by (simp add: createWebhook_match [OF assms Some d [unfolded Inr] a] issued_def)
  qed
  then show ?thesis using h by blast
qed

theorem delete_completes_before_create_witness:
  "ProjectHooks_all memory_api (''teamA'' @ ''/'' @ ''svcA'')
      (server (start (server_with [hook 1 ''https://other.example.com'', hook 2 ''https://hooks.example.com/in'']))) =
     (Inr [hook 1 ''https://other.example.com'', hook 2 ''https://hooks.example.com/in''],
      server_with [hook 1 ''https://other.example.com'', hook 2 ''https://hooks.example.com/in'']) \<and>
   issued (start (server_with [hook 1 ''https://other.example.com'', hook 2 ''https://hooks.example.com/in'']))
     (snd (createWebhook memory_api ''https://hooks.example.com/in'' ''teamA'' ''svcA''
        (start (server_with [hook 1 ''https://other.example.com'', hook 2 ''https://hooks.example.com/in''])))) =
     [Get_Project_Hooks ''teamA/svcA'', Delete_Project_Hook ''teamA/svcA'' 2,
      Create_Project_Hook ''teamA/svcA'' ''https://hooks.example.com/in'' (webhookConfig ''https://hooks.example.com/in'')] \<and>
   ProjectHooks_all memory_api (''teamA'' @ ''/'' @ ''svcA'')
      (server (start (server_with [hook 1 ''https://hooks.example.com/IN'', hook 2 ''https://hooks.example.com/in/'']))) =
     (Inr [hook 1 ''https://hooks.example.com/IN'', hook 2 ''https://hooks.example.com/in/''],
      server_with [hook 1 ''https://hooks.example.com/IN'', hook 2 ''https://hooks.example.com/in/'']) \<and>
   issued (start (server_with [hook 1 ''https://hooks.example.com/IN'', hook 2 ''https://hooks.example.com/in/'']))
     (snd (createWebhook memory_api ''https://hooks.example.com/in'' ''teamA'' ''svcA''
        (start (server_with [hook 1 ''https://hooks.example.com/IN'', hook 2 ''https://hooks.example.com/in/''])))) =
     [Get_Project_Hooks ''teamA/svcA'',
      Create_Project_Hook ''teamA/svcA'' ''https://hooks.example.com/in'' (webhookConfig ''https://hooks.example.com/in'')]"
  using delete_completes_before_create [of memory_api "''teamA''" "''svcA''"
      "start (server_with [hook 1 ''https://other.example.com'', hook 2 ''https://hooks.example.com/in''])"
      "[hook 1 ''https://other.example.com'', hook 2 ''https://hooks.example.com/in'']"
      "server_with [hook 1 ''https://other.example.com'', hook 2 ''https://hooks.example.com/in'']"
      "''https://hooks.example.com/in''"]
    delete_completes_before_create [of memory_api "''teamA''" "''svcA''"
      "start (server_with [hook 1 ''https://hooks.example.com/IN'', hook 2 ''https://hooks.example.com/in/''])"
      "[hook 1 ''https://hooks.example.com/IN'', hook 2 ''https://hooks.example.com/in/'']"
      "server_with [hook 1 ''https://hooks.example.com/IN'', hook 2 ''https://hooks.example.com/in/'']"
      "''https://hooks.example.com/in''"]
  by (simp add: eval_defs)

lemma deletions_issued_createWebhook:
  "deletions (issued w (snd (createWebhook api dest groupPath repoName w))) =
     (case ProjectHooks_all api (groupPath @ ''/'' @ repoName) (server w) of
        (Inl e, s1) \<Rightarrow> []
      | (Inr hs, s1) \<Rightarrow>
          (case find (\<lambda>hook. url hook = dest) hs of
             None \<Rightarrow> []
           | Some h \<Rightarrow> [(groupPath @ ''/'' @ repoName, hook_id h)]))"
proof (cases rule: createWebhook_cases [where api = api and groupPath = groupPath and repoName = repoName and w = w and dest = dest])
  case (fetch_fails e s1)
  show ?thesis
    using fetch_fails by (simp add: createWebhook_fetch_fails [OF fetch_fails] issued_def)
next
  case (no_match hs s1 r s2)
  show ?thesis
    using no_match by (simp add: createWebhook_no_match [OF no_match] issued_def)
next
  case (delete_fails hs s1 h e s2)
  show ?thesis
    using delete_fails by (simp add: createWebhook_delete_fails [OF delete_fails] issued_def)
next
  case (match hs s1 h u s2 r s3)
  show ?thesis
    using match by (simp add: createWebhook_match [OF match] issued_def)
qed

section \<open>Only the first matching hook is deleted\<close>

text \<open>
  C9. One run of \<open>createWebhook\<close> issues at most one delete call, whatever the client
  does. When the fetch returns the hooks \<open>hs\<close>, a delete call that is issued is for the
  first hook of \<open>hs\<close> with the destination url: \<open>hs\<close> is \<open>pre @ h # post\<close> with no hook of
  \<open>pre\<close> having that url. On the in-memory server, where the identifiers of the hooks of
  the project are distinct, the hooks of the project after the run are those before it
  without that first hook, in their order, followed by the new hook: the hooks of \<open>post\<close>
  that have the destination url too are still there.
\<close>

theorem only_first_match_is_deleted:
  "length (deletions (issued w (snd (createWebhook api dest groupPath repoName w)))) \<le> 1 \<and>
   (ProjectHooks_all api (groupPath @ ''/'' @ repoName) (server w) = (Inr hs, s1) \<longrightarrow>
      (\<forall>(projectPath, hookId) \<in> set (deletions (issued w (snd (createWebhook api dest groupPath repoName w)))).
          \<exists>pre h post. hs = pre @ h # post \<and> (\<forall>x\<in>set pre. url x \<noteq> dest) \<and> url h = dest \<and>
             projectPath = groupPath @ ''/'' @ repoName \<and> hookId = hook_id h)) \<and>
   (mem_hooks s (g @ ''/'' @ r) = Some (before @ first # rest) \<and>
    (\<forall>x\<in>set before. url x \<noteq> d) \<and> url first = d \<and>
    distinct (map hook_id (before @ first # rest)) \<longrightarrow>
      mem_hooks (server (snd (createWebhook memory_api d g r \<lparr>server = s, calls = cs\<rparr>))) (g @ ''/'' @ r) =
        Some (before @ rest @ [stored_hook (mem_next_id s) d (webhookConfig d)]))"
proof (intro conjI impI)
  show "length (deletions (issued w (snd (createWebhook api dest groupPath repoName w)))) \<le> 1"
    by (simp add: deletions_issued_createWebhook split: prod.splits sum.splits option.splits)
next
  assume f: "ProjectHooks_all api (groupPath @ ''/'' @ repoName) (server w) = (Inr hs, s1)"
  show "\<forall>(projectPath, hookId) \<in> set (deletions (issued w (snd (createWebhook api dest groupPath repoName w)))).
          \<exists>pre h post. hs = pre @ h # post \<and> (\<forall>x\<in>set pre. url x \<noteq> dest) \<and> url h = dest \<and>
             projectPath = groupPath @ ''/'' @ repoName \<and> hookId = hook_id h"
  proof (cases "find (\<lambda>hook. url hook = dest) hs")
    case None
    then show ?thesis using f by (simp add: deletions_issued_createWebhook)
  next
    case (Some h)
    obtain pre post where "hs = pre @ h # post" "url h = dest" "\<forall>x\<in>set pre. url x \<noteq> dest"
      using find_first_match [OF Some] by blast
    then have "\<exists>pre h' post. hs = pre @ h' # post \<and> (\<forall>x\<in>set pre. url x \<noteq> dest) \<and> url h' = dest \<and>
        hook_id h = hook_id h'"
      by blast
    then show ?thesis using Some f by (simp add: deletions_issued_createWebhook)
  qed
next
  assume a: "mem_hooks s (g @ ''/'' @ r) = Some (before @ first # rest) \<and>
    (\<forall>x\<in>set before. url x \<noteq> d) \<and> url first = d \<and>
    distinct (map hook_id (before @ first # rest))"
  then have fnd: "find (\<lambda>hook. url hook = d) (before @ first # rest) = Some first"
    by (simp add: find_split)
  have m: "mem_hooks (server \<lparr>server = s, calls = cs\<rparr>) (g @ ''/'' @ r) = Some (before @ first # rest)"
    using a by simp
  have "filter (\<lambda>x. hook_id x \<noteq> hook_id first) (before @ first # rest) = before @ rest"
    using a by (intro filter_other_ids) simp
  then show "mem_hooks (server (snd (createWebhook memory_api d g r \<lparr>server = s, calls = cs\<rparr>))) (g @ ''/'' @ r) =
        Some (before @ rest @ [stored_hook (mem_next_id s) d (webhookConfig d)])"
    using fnd by (simp add: memory_createWebhook [OF m])
qed

theorem only_first_match_is_deleted_witness:
  "ProjectHooks_all memory_api (''teamA'' @ ''/'' @ ''svcA'') (server (start (server_with three_hooks))) =
     (Inr three_hooks, server_with three_hooks) \<and>
   deletions (issued (start (server_with three_hooks))
     (snd (createWebhook memory_api ''https://hooks.example.com/in'' ''teamA'' ''svcA'' (start (server_with three_hooks))))) =
     [(''teamA/svcA'', 2)] \<and>
   mem_hooks (server_with three_hooks) (''teamA'' @ ''/'' @ ''svcA'') =
     Some ([hook 1 ''https://other.example.com''] @ hook 2 ''https://hooks.example.com/in'' #
           [hook 3 ''https://hooks.example.com/in'']) \<and>
   url (hook 1 ''https://other.example.com'') \<noteq> ''https://hooks.example.com/in'' \<and>
   distinct (map hook_id three_hooks) \<and>
   mem_hooks (server (snd (createWebhook memory_api ''https://hooks.example.com/in'' ''teamA'' ''svcA''
       \<lparr>server = server_with three_hooks, calls = []\<rparr>))) ''teamA/svcA'' =
     Some [hook 1 ''https://other.example.com'', hook 3 ''https://hooks.example.com/in'',
           hook 10 ''https://hooks.example.com/in'']"
  using only_first_match_is_deleted [of "start (server_with three_hooks)" memory_api
      "''https://hooks.example.com/in''" "''teamA''" "''svcA''" three_hooks "server_with three_hooks"
      "server_with three_hooks" "''teamA''" "''svcA''" "[hook 1 ''https://other.example.com'']"
      "hook 2 ''https://hooks.example.com/in''" "[hook 3 ''https://hooks.example.com/in'']"
      "''https://hooks.example.com/in''" "[]"]
  by (simp add: eval_defs three_hooks_def)

lemma hooks_of_after_run:
  "hooks_of (server (snd (createWebhook memory_api dest groupPath repoName w))) q =
     (if q = groupPath @ ''/'' @ repoName \<and> mem_hooks (server w) q \<noteq> None
      then (case find (\<lambda>hook. url hook = dest) (hooks_of (server w) q) of
              None \<Rightarrow> hooks_of (server w) q
            | Some h \<Rightarrow> filter (\<lambda>x. hook_id x \<noteq> hook_id h) (hooks_of (server w) q)) @
           [stored_hook (mem_next_id (server w)) dest (webhookConfig dest)]
      else hooks_of (server w) q)"
proof (cases "mem_hooks (server w) (groupPath @ ''/'' @ repoName)")
  case None
  then show ?thesis
    by (auto simp: memory_createWebhook_unknown [OF None] hooks_of_def)
next
  case (Some hs)
  then show ?thesis
    by (auto simp: memory_createWebhook [OF Some] hooks_of_def split: option.splits)
qed

section \<open>Hooks with another url are left alone\<close>

text \<open>
  C10. Whatever the client does, a delete call that one run of \<open>createWebhook\<close> issues is
  for the project of the run and for the id of a hook that the fetch has returned and whose
  url is the destination url; when the fetch fails there is no delete call. On the
  in-memory server, where the identifiers of the hooks of the project are distinct, the
  hooks whose url is not the destination url are, for every project, the same after the
  run as before it, in value and in order.
\<close>

theorem other_hooks_unchanged:
  "(ProjectHooks_all api (groupPath @ ''/'' @ repoName) (server w) = (r0, s1) \<longrightarrow>
      (\<forall>(projectPath, hookId) \<in> set (deletions (issued w (snd (createWebhook api dest groupPath repoName w)))).
          projectPath = groupPath @ ''/'' @ repoName \<and>
          (\<exists>hs. r0 = Inr hs \<and> (\<exists>h\<in>set hs. hook_id h = hookId \<and> url h = dest)))) \<and>
   (distinct (map hook_id (hooks_of s (g @ ''/'' @ r))) \<longrightarrow>
      filter (\<lambda>h. url h \<noteq> d) (hooks_of (server (snd (createWebhook memory_api d g r \<lparr>server = s, calls = cs\<rparr>))) q) =
      filter (\<lambda>h. url h \<noteq> d) (hooks_of s q))"
proof (intro conjI impI)
  assume f: "ProjectHooks_all api (groupPath @ ''/'' @ repoName) (server w) = (r0, s1)"
  show "\<forall>(projectPath, hookId) \<in> set (deletions (issued w (snd (createWebhook api dest groupPath repoName w)))).
          projectPath = groupPath @ ''/'' @ repoName \<and>
          (\<exists>hs. r0 = Inr hs \<and> (\<exists>h\<in>set hs. hook_id h = hookId \<and> url h = dest))"
  proof (cases r0)
    case (Inl e)
    then show ?thesis using f by (simp add: deletions_issued_createWebhook)
  next
    case (Inr hs)
    show ?thesis
    proof (cases "find (\<lambda>hook. url hook = dest) hs")
      case None
      then show ?thesis using f Inr by (simp add: deletions_issued_createWebhook)
    next
      case (Some h)
      then have "\<exists>h'\<in>set hs. hook_id h' = hook_id h \<and> url h' = dest"
        using find_Some_in_set [OF Some] by blast
      then show ?thesis using f Inr Some by (simp add: deletions_issued_createWebhook)
    qed
  qed
next
  assume dist: "distinct (map hook_id (hooks_of s (g @ ''/'' @ r)))"
  show "filter (\<lambda>h. url h \<noteq> d) (hooks_of (server (snd (createWebhook memory_api d g r \<lparr>server = s, calls = cs\<rparr>))) q) =
      filter (\<lambda>h. url h \<noteq> d) (hooks_of s q)"
  proof (cases "q = g @ ''/'' @ r \<and> mem_hooks s q \<noteq> None")
    case False
    then show ?thesis by (auto simp add: hooks_of_after_run url_stored_hook split: option.splits)
  next
    case True
    show ?thesis
    proof (cases "find (\<lambda>hook. url hook = d) (hooks_of s q)")
      case None
      then show ?thesis using True by (auto simp add: hooks_of_after_run url_stored_hook split: option.splits)
    next
      case (Some h)
      have "filter (\<lambda>x. url x \<noteq> d) (filter (\<lambda>x. hook_id x \<noteq> hook_id h) (hooks_of s q)) =
            filter (\<lambda>x. url x \<noteq> d) (hooks_of s q)"
        using dist True find_Some_in_set [OF Some] by (intro filter_nonmatching_other_ids) simp_all
      then show ?thesis using True Some by (auto simp add: hooks_of_after_run url_stored_hook split: option.splits)
    qed
  qed
qed

theorem other_hooks_unchanged_witness:
  "ProjectHooks_all memory_api (''teamA'' @ ''/'' @ ''svcA'') (server (start (server_with three_hooks))) =
     (Inr three_hooks, server_with three_hooks) \<and>
   deletions (issued (start (server_with three_hooks))
     (snd (createWebhook memory_api ''https://hooks.example.com/in'' ''teamA'' ''svcA'' (start (server_with three_hooks))))) =
     [(''teamA/svcA'', 2)] \<and>
   distinct (map hook_id (hooks_of (server_with three_hooks) (''teamA'' @ ''/'' @ ''svcA''))) \<and>
   filter (\<lambda>h. url h \<noteq> ''https://hooks.example.com/in'')
     (hooks_of (server (snd (createWebhook memory_api ''https://hooks.example.com/in'' ''teamA'' ''svcA''
        \<lparr>server = server_with three_hooks, calls = []\<rparr>))) ''teamA/svcA'') =
     [hook 1 ''https://other.example.com'']"
  using other_hooks_unchanged [of memory_api "''teamA''" "''svcA''" "start (server_with three_hooks)"
      "Inr three_hooks" "server_with three_hooks" "''https://hooks.example.com/in''"
      "server_with three_hooks" "''teamA''" "''svcA''" "''https://hooks.example.com/in''" "[]" "''teamA/svcA''"]
  by (simp add: eval_defs three_hooks_def)

section \<open>Two reconciliations in a row\<close>

text \<open>
  C1, as the specification states it: after two runs of \<open>createWebhook\<close> in a row exactly
  one hook of the project has the destination url, whatever hooks it had before. The
  project below has two hooks with the destination url before the runs, and has two after
  them: each run deletes the first of them only and adds one.
\<close>

theorem twice_leaves_one_counterexample:
  "length (matching ''https://hooks.example.com/in''
     (hooks_of (server (snd (createWebhook memory_api ''https://hooks.example.com/in'' ''teamA'' ''svcA''
        (snd (createWebhook memory_api ''https://hooks.example.com/in'' ''teamA'' ''svcA''
           (start (server_with [hook 1 ''https://hooks.example.com/in'', hook 2 ''https://hooks.example.com/in''])))))))
        ''teamA/svcA'')) = 2"
  by (simp add: eval_defs)

text \<open>
  C1, amended: on the in-memory server, for a project the server knows and of whose hooks
  at most one has the destination url, two runs of \<open>createWebhook\<close> in a row both return a
  hook, and after them exactly one hook of the project has the destination url.
\<close>

theorem twice_leaves_one:
  assumes "mem_hooks (server w) (groupPath @ ''/'' @ repoName) = Some hs"
    and "length (matching dest hs) \<le> 1"
  shows "(\<exists>webhook. fst (createWebhook memory_api dest groupPath repoName w) = Inr webhook) \<and>
         (\<exists>webhook. fst (createWebhook memory_api dest groupPath repoName
                           (snd (createWebhook memory_api dest groupPath repoName w))) = Inr webhook) \<and>
         length (matching dest (hooks_of (server (snd (createWebhook memory_api dest groupPath repoName
                           (snd (createWebhook memory_api dest groupPath repoName w))))) (groupPath @ ''/'' @ repoName))) = 1"
proof -
  obtain webhook hs' where 1: "fst (createWebhook memory_api dest groupPath repoName w) = Inr webhook"
    "mem_hooks (server (snd (createWebhook memory_api dest groupPath repoName w))) (groupPath @ ''/'' @ repoName) = Some hs'"
    "length (matching dest hs') = 1"
    using memory_run_leaves_one [OF assms] by blast
  have le: "length (matching dest hs') \<le> 1" using 1(3) by simp
  obtain webhook2 hs2 where 2: "fst (createWebhook memory_api dest groupPath repoName
        (snd (createWebhook memory_api dest groupPath repoName w))) = Inr webhook2"
    "mem_hooks (server (snd (createWebhook memory_api dest groupPath repoName
        (snd (createWebhook memory_api dest groupPath repoName w))))) (groupPath @ ''/'' @ repoName) = Some hs2"
    "length (matching dest hs2) = 1"
    using memory_run_leaves_one [OF 1(2) le] by blast
  show ?thesis using 1(1) 2 by (simp add: hooks_of_def)
qed

theorem twice_leaves_one_witness:
  "mem_hooks (server (start (server_with [hook 1 ''https://other.example.com'', hook 2 ''https://hooks.example.com/in''])))
      (''teamA'' @ ''/'' @ ''svcA'') =
     Some [hook 1 ''https://other.example.com'', hook 2 ''https://hooks.example.com/in''] \<and>
   length (matching ''https://hooks.example.com/in''
      [hook 1 ''https://other.example.com'', hook 2 ''https://hooks.example.com/in'']) \<le> 1 \<and>
   hooks_of (server (snd (createWebhook memory_api ''https://hooks.example.com/in'' ''teamA'' ''svcA''
        (snd (createWebhook memory_api ''https://hooks.example.com/in'' ''teamA'' ''svcA''
           (start (server_with [hook 1 ''https://other.example.com'', hook 2 ''https://hooks.example.com/in''])))))))
        ''teamA/svcA'' =
     [hook 1 ''https://other.example.com'', hook 11 ''https://hooks.example.com/in'']"
  using twice_leaves_one [of "start (server_with [hook 1 ''https://other.example.com'', hook 2 ''https://hooks.example.com/in''])"
      "''teamA''" "''svcA''" "[hook 1 ''https://other.example.com'', hook 2 ''https://hooks.example.com/in'']"
      "''https://hooks.example.com/in''"]
  by (simp add: eval_defs)

section \<open>Lines of the manifest\<close>

lemma issued_createWebhook_first:
  "\<exists>cs. issued w (snd (createWebhook api dest groupPath repoName w)) =
     Get_Project_Hooks (groupPath @ ''/'' @ repoName) # cs"
proof (cases rule: createWebhook_cases [where api = api and groupPath = groupPath and repoName = repoName and w = w and dest = dest])
  case (fetch_fails e s1)
  show ?thesis by (simp add: createWebhook_fetch_fails [OF fetch_fails] issued_def)
next
  case (no_match hs s1 r s2)
  show ?thesis by (simp add: createWebhook_no_match [OF no_match] issued_def)
next
  case (delete_fails hs s1 h e s2)
  show ?thesis by (simp add: createWebhook_delete_fails [OF delete_fails] issued_def)
next
  case (match hs s1 h u s2 r s3)
  show ?thesis by (simp add: createWebhook_match [OF match] issued_def)
qed

lemma catalog_queries_createWebhook:
  "catalog_queries (issued w (snd (createWebhook api dest groupPath repoName w))) = []"
proof (cases rule: createWebhook_cases [where api = api and groupPath = groupPath and repoName = repoName and w = w and dest = dest])
  case (fetch_fails e s1)
  show ?thesis by (simp add: createWebhook_fetch_fails [OF fetch_fails] issued_def)
next
  case (no_match hs s1 r s2)
  show ?thesis by (simp add: createWebhook_no_match [OF no_match] issued_def)
next
  case (delete_fails hs s1 h e s2)
  show ?thesis by (simp add: createWebhook_delete_fails [OF delete_fails] issued_def)
next
  case (match hs s1 h u s2 r s3)
  show ?thesis by (simp add: createWebhook_match [OF match] issued_def)
qed

lemma processLine_direct:
  assumes "last (js_split CHR ''/'' line) \<noteq> ''*''"
  shows "processLine api dest line w =
           (case createWebhook api dest (js_join ''/'' (butlast (js_split CHR ''/'' line)))
                   (last (js_split CHR ''/'' line)) w of
              (Inl e, w1) \<Rightarrow> (Inl e, w1)
            | (Inr webhook, w1) \<Rightarrow> (Inr (), w1))"
  using assms by (simp add: processLine_def Let_def)

lemma snd_result_case:
  "snd (case x of (Inl e, w1) \<Rightarrow> (Inl e, w1) | (Inr webhook, w1) \<Rightarrow> (Inr (), w1)) = snd x"
  by (simp split: prod.splits sum.splits)

text \<open>
  C4. A line whose last segment is not \<^verbatim>\<open>*\<close> is processed by one call of
  \<open>createWebhook\<close>, for the group path made of all segments but the last, joined by
  \<^verbatim>\<open>/\<close>, and the repository name that is the last segment. The first call issued is the
  fetch of the hooks of that project, and the project catalog is not queried. The segments
  are the pieces of the line between its slashes: they contain no slash, and joined by
  slashes they are the line.
\<close>

theorem direct_line_is_one_repository:
  assumes "last (js_split CHR ''/'' line) \<noteq> ''*''"
  shows "processLine api dest line w =
           (case createWebhook api dest (js_join ''/'' (butlast (js_split CHR ''/'' line)))
                   (last (js_split CHR ''/'' line)) w of
              (Inl e, w1) \<Rightarrow> (Inl e, w1)
            | (Inr webhook, w1) \<Rightarrow> (Inr (), w1)) \<and>
         (\<exists>cs. issued w (snd (processLine api dest line w)) =
            Get_Project_Hooks (js_join ''/'' (butlast (js_split CHR ''/'' line)) @ ''/'' @
                               last (js_split CHR ''/'' line)) # cs) \<and>
         catalog_queries (issued w (snd (processLine api dest line w))) = [] \<and>
         js_join ''/'' (js_split CHR ''/'' line) = line \<and>
         (\<forall>segment\<in>set (js_split CHR ''/'' line). CHR ''/'' \<notin> set segment)"
proof (intro conjI)
  show "processLine api dest line w =
           (case createWebhook api dest (js_join ''/'' (butlast (js_split CHR ''/'' line)))
                   (last (js_split CHR ''/'' line)) w of
              (Inl e, w1) \<Rightarrow> (Inl e, w1)
            | (Inr webhook, w1) \<Rightarrow> (Inr (), w1))"
    by (rule processLine_direct [OF assms])
  show "\<exists>cs. issued w (snd (processLine api dest line w)) =
            Get_Project_Hooks (js_join ''/'' (butlast (js_split CHR ''/'' line)) @ ''/'' @
                               last (js_split CHR ''/'' line)) # cs"
    unfolding processLine_direct [OF assms] snd_result_case
    by (rule issued_createWebhook_first)
  show "catalog_queries (issued w (snd (processLine api dest line w))) = []"
    unfolding processLine_direct [OF assms] snd_result_case
    by (rule catalog_queries_createWebhook)
  show "js_join ''/'' (js_split CHR ''/'' line) = line"
    by (rule js_join_js_split)
  show "\<forall>segment\<in>set (js_split CHR ''/'' line). CHR ''/'' \<notin> set segment"
    using js_split_parts_no_sep by blast
qed

theorem direct_line_is_one_repository_witness:
  "last (js_split CHR ''/'' ''teamA/svcA'') \<noteq> ''*'' \<and>
   js_join ''/'' (butlast (js_split CHR ''/'' ''group/subgroup1/subgroup2/repo'')) = ''group/subgroup1/subgroup2'' \<and>
   last (js_split CHR ''/'' ''group/subgroup1/subgroup2/repo'') = ''repo'' \<and>
   processLine memory_api ''https://hooks.example.com/in'' ''teamA/svcA'' (start (server_with [])) =
     (Inr (), \<lparr>server = \<lparr>mem_hooks = [''teamA/svcA'' \<mapsto> [hook 10 ''https://hooks.example.com/in'']],
                          mem_groups = Map.empty, mem_next_id = 11\<rparr>,
               calls = [Get_Project_Hooks ''teamA/svcA'',
                        Create_Project_Hook ''teamA/svcA'' ''https://hooks.example.com/in''
                          (webhookConfig ''https://hooks.example.com/in'')]\<rparr>)"
  using direct_line_is_one_repository [of "''teamA/svcA''" memory_api "''https://hooks.example.com/in''"
      "start (server_with [])"]
  by (simp add: eval_defs)

section \<open>Repositories of a group\<close>

text \<open>
  C5. When the catalog returns the projects of the group, \<open>getAllGroupRepositories\<close>
  returns one repository for each of them, in their order: its name is the last segment of
  the project's \<^verbatim>\<open>path_with_namespace\<close> and its group path the other segments joined by
  \<^verbatim>\<open>/\<close>. The group path of the wildcard line is not part of the result: for a project
  whose path has a slash, group path, slash and name are again the project's own path.
\<close>

theorem repositories_from_project_paths:
  assumes "Groups_projects api groupPath True 100 (server w) = (Inr projects, s1)"
  shows "getAllGroupRepositories api groupPath w =
           (Inr (map (\<lambda>project.
                   \<lparr>repo_groupPath = js_join ''/'' (butlast (js_split CHR ''/'' (path_with_namespace project))),
                    repo_repoName = last (js_split CHR ''/'' (path_with_namespace project))\<rparr>) projects),
            \<lparr>server = s1, calls = calls w @ [Get_Group_Projects groupPath True 100]\<rparr>) \<and>
         ((\<forall>project\<in>set projects. CHR ''/'' \<in> set (path_with_namespace project)) \<longrightarrow>
            (case getAllGroupRepositories api groupPath w of
               (Inl e, w1) \<Rightarrow> False
             | (Inr repositories, w1) \<Rightarrow>
                 map (\<lambda>repo. repo_groupPath repo @ ''/'' @ repo_repoName repo) repositories =
                 map path_with_namespace projects))"
proof -
  have eq: "getAllGroupRepositories api groupPath w =
           (Inr (map (\<lambda>project.
                   \<lparr>repo_groupPath = js_join ''/'' (butlast (js_split CHR ''/'' (path_with_namespace project))),
                    repo_repoName = last (js_split CHR ''/'' (path_with_namespace project))\<rparr>) projects),
            \<lparr>server = s1, calls = calls w @ [Get_Group_Projects groupPath True 100]\<rparr>)"
    using assms by (simp add: getAllGroupRepositories_def request_def Let_def)
  have "map (\<lambda>repo. repo_groupPath repo @ ''/'' @ repo_repoName repo)
          (map (\<lambda>project.
                   \<lparr>repo_groupPath = js_join ''/'' (butlast (js_split CHR ''/'' (path_with_namespace project))),
                    repo_repoName = last (js_split CHR ''/'' (path_with_namespace project))\<rparr>) projects) =
        map path_with_namespace projects"
    if "\<forall>project\<in>set projects. CHR ''/'' \<in> set (path_with_namespace project)"
    using that path_rejoined by (simp add: comp_def)
  then show ?thesis unfolding eq by simp
qed

lemma path_with_namespace_project: "path_with_namespace (project i full) = full"
  by (simp add: project_def)

theorem repositories_from_project_paths_witness:
  "Groups_projects memory_api ''teamB'' True 100 (server (start teamB_server)) =
     (Inr [project 1 ''teamB/sub/x'', project 2 ''teamB/y''], teamB_server) \<and>
   CHR ''/'' \<in> set (path_with_namespace (project 1 ''teamB/sub/x'')) \<and>
   CHR ''/'' \<in> set (path_with_namespace (project 2 ''teamB/y'')) \<and>
   getAllGroupRepositories memory_api ''teamB'' (start teamB_server) =
     (Inr [\<lparr>repo_groupPath = ''teamB/sub'', repo_repoName = ''x''\<rparr>,
           \<lparr>repo_groupPath = ''teamB'', repo_repoName = ''y''\<rparr>],
      \<lparr>server = teamB_server, calls = [Get_Group_Projects ''teamB'' True 100]\<rparr>)"
  using repositories_from_project_paths [of memory_api "''teamB''" "start teamB_server"
      "[project 1 ''teamB/sub/x'', project 2 ''teamB/y'']" teamB_server]
  by (simp add: memory_api_def mem_projects_def start_def teamB_server_def path_with_namespace_project)

section \<open>A line without a slash\<close>

text \<open>
  C8, as the specification states it: a line without a slash is passed on as the project
  path \<^verbatim>\<open>/\<close> followed by the line. The line \<^verbatim>\<open>*\<close> has no slash, and it is the
  wildcard of the empty group path: the one call issued is the query of the catalog for the
  group with the empty path, and no hooks of a project \<^verbatim>\<open>/*\<close> are fetched.
\<close>

theorem line_without_slash_counterexample:
  "CHR ''/'' \<notin> set ''*'' \<and>
   processLine memory_api ''https://hooks.example.com/in'' ''*'' (start teamB_server) =
     (Inl (ApiError 404), \<lparr>server = teamB_server, calls = [Get_Group_Projects [] True 100]\<rparr>)"
  by (simp add: processLine_def getAllGroupRepositories_def request_def memory_api_def
      mem_projects_def start_def teamB_server_def)

text \<open>
  C8, amended: a line without a slash other than \<^verbatim>\<open>*\<close> is processed by
  \<open>createWebhook\<close> with the empty group path and the line as repository name. The first
  call issued is the fetch of the hooks of the project path \<^verbatim>\<open>/\<close> followed by the line,
  and when the client rejects it the error is the result of the line; when such a line is
  the whole manifest, the process then ends with status 1.
\<close>

theorem line_without_slash:
  assumes "CHR ''/'' \<notin> set line" and "line \<noteq> ''*''"
  shows "processLine api dest line w =
           (case createWebhook api dest [] line w of
              (Inl e, w1) \<Rightarrow> (Inl e, w1)
            | (Inr webhook, w1) \<Rightarrow> (Inr (), w1)) \<and>
         (\<exists>cs. issued w (snd (processLine api dest line w)) = Get_Project_Hooks (''/'' @ line) # cs) \<and>
         (ProjectHooks_all api (''/'' @ line) (server w) = (Inl e, s1) \<longrightarrow>
            processLine api dest line w =
              (Inl e, \<lparr>server = s1, calls = calls w @ [Get_Project_Hooks (''/'' @ line)]\<rparr>) \<and>
            (CHR 0x0A \<notin> set line \<and> js_trim line \<noteq> [] \<longrightarrow>
               processRepositories api dest (Inr line) w =
                 (1, \<lparr>server = s1, calls = calls w @ [Get_Project_Hooks (''/'' @ line)]\<rparr>)))"
proof -
  have sp: "js_split CHR ''/'' line = [line]"
    using assms(1) by (rule js_split_no_sep)
  have pl: "processLine api dest line w =
           (case createWebhook api dest [] line w of
              (Inl e, w1) \<Rightarrow> (Inl e, w1)
            | (Inr webhook, w1) \<Rightarrow> (Inr (), w1))"
    using assms(2) by (simp add: processLine_def sp)
  have first: "\<exists>cs. issued w (snd (processLine api dest line w)) = Get_Project_Hooks (''/'' @ line) # cs"
    unfolding pl snd_result_case using issued_createWebhook_first [of w api dest "[]" line] by simp
  have fails: "processLine api dest line w =
              (Inl e, \<lparr>server = s1, calls = calls w @ [Get_Project_Hooks (''/'' @ line)]\<rparr>)"
    if "ProjectHooks_all api (''/'' @ line) (server w) = (Inl e, s1)"
    using createWebhook_fetch_fails [of api "[]" line w e s1 dest] that by (simp add: pl)
  have run: "processRepositories api dest (Inr line) w =
                 (1, \<lparr>server = s1, calls = calls w @ [Get_Project_Hooks (''/'' @ line)]\<rparr>)"
    if "ProjectHooks_all api (''/'' @ line) (server w) = (Inl e, s1)"
      and "CHR 0x0A \<notin> set line" and "js_trim line \<noteq> []"
    using that(3) by (simp add: processRepositories_def js_split_no_sep [OF that(2)] fails [OF that(1)])
  show ?thesis using pl first fails run by blast
qed

theorem line_without_slash_witness:
  "CHR ''/'' \<notin> set ''onlyname'' \<and> ''onlyname'' \<noteq> ''*'' \<and>
   ProjectHooks_all memory_api (''/'' @ ''onlyname'') (server (start teamB_server)) =
     (Inl (ApiError 404), teamB_server) \<and>
   CHR 0x0A \<notin> set ''onlyname'' \<and> js_trim ''onlyname'' \<noteq> [] \<and>
   processLine memory_api ''https://hooks.example.com/in'' ''onlyname'' (start teamB_server) =
     (Inl (ApiError 404), \<lparr>server = teamB_server, calls = [Get_Project_Hooks ''/onlyname'']\<rparr>) \<and>
   processRepositories memory_api ''https://hooks.example.com/in'' (Inr ''onlyname'') (start teamB_server) =
     (1, \<lparr>server = teamB_server, calls = [Get_Project_Hooks ''/onlyname'']\<rparr>)"
proof -
  have 1: "CHR ''/'' \<notin> set ''onlyname''" by simp
  have 2: "''onlyname'' \<noteq> ''*''" by simp
  show ?thesis
    using 1 2 line_without_slash [OF 1 2, where api = memory_api and dest = "''https://hooks.example.com/in''"
        and w = "start teamB_server" and e = "ApiError 404" and ?s1.0 = teamB_server]
    by (simp add: eval_defs teamB_server_def js_trim_def isWhiteSpace_def)
qed

section \<open>Failure of a reconciliation\<close>

lemma createWebhooks_stops:
  assumes "createWebhooks api dest finished w = (Inr (), w1)"
    and "createWebhook api dest (repo_groupPath repo) (repo_repoName repo) w1 = (Inl e, w2)"
  shows "createWebhooks api dest (finished @ repo # rest) w = (Inl e, w2)"
  using assms
proof (induction finished arbitrary: w)
  case Nil
  then show ?case by simp
next
  case (Cons a finished)
  then show ?case
    by (cases "createWebhook api dest (repo_groupPath a) (repo_repoName a) w")
       (auto split: sum.splits)
qed

lemma processLines_stops:
  assumes "processLines api dest finished w = (Inr (), w1)"
    and "processLine api dest line w1 = (Inl e, w2)"
  shows "processLines api dest (finished @ line # rest) w = (Inl e, w2)"
  using assms
proof (induction finished arbitrary: w)
  case Nil
  then show ?case by simp
next
  case (Cons a finished)
  then show ?case
    by (cases "processLine api dest a w") (auto split: sum.splits)
qed

lemma processRepositories_stops:
  assumes "filter (\<lambda>line. js_trim line \<noteq> []) (js_split (CHR 0x0A) content) = finished @ line # rest"
    and "processLines api dest finished w = (Inr (), w1)"
    and "processLine api dest line w1 = (Inl e, w2)"
  shows "processRepositories api dest (Inr content) w = (1, w2)"
  using processLines_stops [OF assms(2,3), of rest] assms(1)
  by (simp add: processRepositories_def)

lemma processLine_wildcard_stops:
  assumes "last (js_split CHR ''/'' line) = ''*''"
    and "getAllGroupRepositories api (js_join ''/'' (butlast (js_split CHR ''/'' line))) w = (Inr (finished @ repo # rest), v)"
    and "createWebhooks api dest finished v = (Inr (), v1)"
    and "createWebhook api dest (repo_groupPath repo) (repo_repoName repo) v1 = (Inl e, w2)"
  shows "processLine api dest line w = (Inl e, w2)"
  using createWebhooks_stops [OF assms(3,4), of rest] assms(1,2)
  by (simp add: processLine_def)

lemma processLine_direct_stops:
  assumes "last (js_split CHR ''/'' line) \<noteq> ''*''"
    and "createWebhook api dest (js_join ''/'' (butlast (js_split CHR ''/'' line)))
           (last (js_split CHR ''/'' line)) w = (Inl e, w2)"
  shows "processLine api dest line w = (Inl e, w2)"
  using assms by (simp add: processLine_direct)

text \<open>
  C7. When \<open>createWebhook\<close> fails for the repository of a line, or for a repository of the
  expansion of a wildcard line, after the lines and repositories before it have succeeded,
  \<open>processRepositories\<close> ends with status 1 in the world that the failing
  \<open>createWebhook\<close> has left: nothing is called for the repositories and lines after it.
  \<open>createWebhook\<close> fails with the error of the fetch, of the delete or of the create call
  that fails, and the failing call is the last one it issues: after a delete that has
  succeeded and a create call that fails, the server is as the create call has left it, and
  no call follows that would put the deleted hook back.
\<close>

theorem failure_aborts_run:
  "(filter (\<lambda>line. js_trim line \<noteq> []) (js_split (CHR 0x0A) content) = finished @ line # rest \<and>
    processLines api dest finished w = (Inr (), w1) \<and>
    last (js_split CHR ''/'' line) \<noteq> ''*'' \<and>
    createWebhook api dest (js_join ''/'' (butlast (js_split CHR ''/'' line)))
      (last (js_split CHR ''/'' line)) w1 = (Inl e, w2) \<longrightarrow>
    processRepositories api dest (Inr content) w = (1, w2)) \<and>
   (filter (\<lambda>line. js_trim line \<noteq> []) (js_split (CHR 0x0A) content') = finished' @ line' # rest' \<and>
    processLines api dest finished' w = (Inr (), w1') \<and>
    last (js_split CHR ''/'' line') = ''*'' \<and>
    getAllGroupRepositories api (js_join ''/'' (butlast (js_split CHR ''/'' line'))) w1' =
      (Inr (reconciled @ repo # remaining), v) \<and>
    createWebhooks api dest reconciled v = (Inr (), v1) \<and>
    createWebhook api dest (repo_groupPath repo) (repo_repoName repo) v1 = (Inl e, w2') \<longrightarrow>
    processRepositories api dest (Inr content') w = (1, w2')) \<and>
   (ProjectHooks_all api (groupPath @ ''/'' @ repoName) (server u) = (Inl e, s1) \<longrightarrow>
    createWebhook api dest groupPath repoName u =
      (Inl e, \<lparr>server = s1, calls = calls u @ [Get_Project_Hooks (groupPath @ ''/'' @ repoName)]\<rparr>)) \<and>
   (ProjectHooks_all api (groupPath @ ''/'' @ repoName) (server u) = (Inr hs, s1) \<and>
    find (\<lambda>hook. url hook = dest) hs = Some h \<and>
    ProjectHooks_remove api (groupPath @ ''/'' @ repoName) (hook_id h) s1 = (Inl e, s2) \<longrightarrow>
    createWebhook api dest groupPath repoName u =
      (Inl e, \<lparr>server = s2, calls = calls u @
         [Get_Project_Hooks (groupPath @ ''/'' @ repoName),
          Delete_Project_Hook (groupPath @ ''/'' @ repoName) (hook_id h)]\<rparr>)) \<and>
   (ProjectHooks_all api (groupPath @ ''/'' @ repoName) (server u) = (Inr hs, s1) \<and>
    find (\<lambda>hook. url hook = dest) hs = Some h \<and>
    ProjectHooks_remove api (groupPath @ ''/'' @ repoName) (hook_id h) s1 = (Inr ok, s2) \<and>
    ProjectHooks_add api (groupPath @ ''/'' @ repoName) dest (webhookConfig dest) s2 = (Inl e, s3) \<longrightarrow>
    createWebhook api dest groupPath repoName u =
      (Inl e, \<lparr>server = s3, calls = calls u @
         [Get_Project_Hooks (groupPath @ ''/'' @ repoName),
          Delete_Project_Hook (groupPath @ ''/'' @ repoName) (hook_id h),
          Create_Project_Hook (groupPath @ ''/'' @ repoName) dest (webhookConfig dest)]\<rparr>)) \<and>
   (ProjectHooks_all api (groupPath @ ''/'' @ repoName) (server u) = (Inr hs, s1) \<and>
    find (\<lambda>hook. url hook = dest) hs = None \<and>
    ProjectHooks_add api (groupPath @ ''/'' @ repoName) dest (webhookConfig dest) s1 = (Inl e, s2) \<longrightarrow>
    createWebhook api dest groupPath repoName u =
      (Inl e, \<lparr>server = s2, calls = calls u @
         [Get_Project_Hooks (groupPath @ ''/'' @ repoName),
          Create_Project_Hook (groupPath @ ''/'' @ repoName) dest (webhookConfig dest)]\<rparr>))"
proof (intro conjI impI; (elim conjE)?)
  assume a: "filter (\<lambda>line. js_trim line \<noteq> []) (js_split (CHR 0x0A) content) = finished @ line # rest"
    and b: "processLines api dest finished w = (Inr (), w1)"
    and c: "last (js_split CHR ''/'' line) \<noteq> ''*''"
    and d: "createWebhook api dest (js_join ''/'' (butlast (js_split CHR ''/'' line)))
      (last (js_split CHR ''/'' line)) w1 = (Inl e, w2)"
  show "processRepositories api dest (Inr content) w = (1, w2)"
    by (rule processRepositories_stops [OF a b processLine_direct_stops [OF c d]])
next
  assume a: "filter (\<lambda>line. js_trim line \<noteq> []) (js_split (CHR 0x0A) content') = finished' @ line' # rest'"
    and b: "processLines api dest finished' w = (Inr (), w1')"
    and c: "last (js_split CHR ''/'' line') = ''*''"
    and d: "getAllGroupRepositories api (js_join ''/'' (butlast (js_split CHR ''/'' line'))) w1' =
      (Inr (reconciled @ repo # remaining), v)"
    and e: "createWebhooks api dest reconciled v = (Inr (), v1)"
    and f: "createWebhook api dest (repo_groupPath repo) (repo_repoName repo) v1 = (Inl e, w2')"
  show "processRepositories api dest (Inr content') w = (1, w2')"
    by (rule processRepositories_stops [OF a b processLine_wildcard_stops [OF c d e f]])
next
  assume "ProjectHooks_all api (groupPath @ ''/'' @ repoName) (server u) = (Inl e, s1)"
  then show "createWebhook api dest groupPath repoName u =
      (Inl e, \<lparr>server = s1, calls = calls u @ [Get_Project_Hooks (groupPath @ ''/'' @ repoName)]\<rparr>)"
    by (rule createWebhook_fetch_fails)
next
  assume "ProjectHooks_all api (groupPath @ ''/'' @ repoName) (server u) = (Inr hs, s1)"
    and "find (\<lambda>hook. url hook = dest) hs = Some h"
    and "ProjectHooks_remove api (groupPath @ ''/'' @ repoName) (hook_id h) s1 = (Inl e, s2)"
  then show "createWebhook api dest groupPath repoName u =
      (Inl e, \<lparr>server = s2, calls = calls u @
         [Get_Project_Hooks (groupPath @ ''/'' @ repoName),
          Delete_Project_Hook (groupPath @ ''/'' @ repoName) (hook_id h)]\<rparr>)"
    by (rule createWebhook_delete_fails)
next
  assume "ProjectHooks_all api (groupPath @ ''/'' @ repoName) (server u) = (Inr hs, s1)"
    and "find (\<lambda>hook. url hook = dest) hs = Some h"
    and "ProjectHooks_remove api (groupPath @ ''/'' @ repoName) (hook_id h) s1 = (Inr ok, s2)"
    and "ProjectHooks_add api (groupPath @ ''/'' @ repoName) dest (webhookConfig dest) s2 = (Inl e, s3)"
  then show "createWebhook api dest groupPath repoName u =
      (Inl e, \<lparr>server = s3, calls = calls u @
         [Get_Project_Hooks (groupPath @ ''/'' @ repoName),
          Delete_Project_Hook (groupPath @ ''/'' @ repoName) (hook_id h),
          Create_Project_Hook (groupPath @ ''/'' @ repoName) dest (webhookConfig dest)]\<rparr>)"
    by (rule createWebhook_match)
next
  assume "ProjectHooks_all api (groupPath @ ''/'' @ repoName) (server u) = (Inr hs, s1)"
    and "find (\<lambda>hook. url hook = dest) hs = None"
    and "ProjectHooks_add api (groupPath @ ''/'' @ repoName) dest (webhookConfig dest) s1 = (Inl e, s2)"
  then show "createWebhook api dest groupPath repoName u =
      (Inl e, \<lparr>server = s2, calls = calls u @
         [Get_Project_Hooks (groupPath @ ''/'' @ repoName),
          Create_Project_Hook (groupPath @ ''/'' @ repoName) dest (webhookConfig dest)]\<rparr>)"
    by (rule createWebhook_no_match)
qed

lemmas scenario_defs =
  eval_defs processLine_def getAllGroupRepositories_def add_rejected_for_def remove_rejected_def
  teamB_server_hooked_def path_with_namespace_project

theorem failure_aborts_run_witness:
  "filter (\<lambda>line. js_trim line \<noteq> []) (js_split (CHR 0x0A) manifest_direct) =
     [''teamA/svcA''] @ ''teamB/y'' # [''teamA/svcA''] \<and>
   fst (processLines (add_rejected_for ''teamB/y'') ''https://hooks.example.com/in'' [''teamA/svcA'']
          (start teamB_server_hooked)) = Inr () \<and>
   fst (processRepositories (add_rejected_for ''teamB/y'') ''https://hooks.example.com/in''
          (Inr manifest_direct) (start teamB_server_hooked)) = 1 \<and>
   calls (snd (processRepositories (add_rejected_for ''teamB/y'') ''https://hooks.example.com/in''
          (Inr manifest_direct) (start teamB_server_hooked))) =
     [Get_Project_Hooks ''teamA/svcA'',
      Create_Project_Hook ''teamA/svcA'' ''https://hooks.example.com/in'' (webhookConfig ''https://hooks.example.com/in''),
      Get_Project_Hooks ''teamB/y'',
      Delete_Project_Hook ''teamB/y'' 5,
      Create_Project_Hook ''teamB/y'' ''https://hooks.example.com/in'' (webhookConfig ''https://hooks.example.com/in'')] \<and>
   hooks_of (server (snd (processRepositories (add_rejected_for ''teamB/y'') ''https://hooks.example.com/in''
          (Inr manifest_direct) (start teamB_server_hooked)))) ''teamB/y'' = [] \<and>
   fst (processRepositories (add_rejected_for ''teamB/y'') ''https://hooks.example.com/in''
          (Inr manifest_wildcard) (start teamB_server_hooked)) = 1 \<and>
   calls (snd (processRepositories (add_rejected_for ''teamB/y'') ''https://hooks.example.com/in''
          (Inr manifest_wildcard) (start teamB_server_hooked))) =
     [Get_Group_Projects ''teamB'' True 100,
      Get_Project_Hooks ''teamB/sub/x'',
      Create_Project_Hook ''teamB/sub/x'' ''https://hooks.example.com/in'' (webhookConfig ''https://hooks.example.com/in''),
      Get_Project_Hooks ''teamB/y'',
      Delete_Project_Hook ''teamB/y'' 5,
      Create_Project_Hook ''teamB/y'' ''https://hooks.example.com/in'' (webhookConfig ''https://hooks.example.com/in'')] \<and>
   createWebhook remove_rejected ''https://hooks.example.com/in'' ''teamB'' ''y'' (start teamB_server_hooked) =
     (Inl (ApiError 403),
      \<lparr>server = teamB_server_hooked,
        calls = [Get_Project_Hooks ''teamB/y'', Delete_Project_Hook ''teamB/y'' 5]\<rparr>) \<and>
   createWebhook memory_api ''https://hooks.example.com/in'' ''teamC'' ''z'' (start teamB_server_hooked) =
     (Inl (ApiError 404),
      \<lparr>server = teamB_server_hooked, calls = [Get_Project_Hooks ''teamC/z'']\<rparr>)"
proof -
  let ?api = "add_rejected_for ''teamB/y''"
  let ?d = "''https://hooks.example.com/in''"
  let ?w1 = "snd (processLines ?api ?d [''teamA/svcA''] (start teamB_server_hooked))"
  let ?w2 = "snd (createWebhook ?api ?d ''teamB'' ''y'' ?w1)"
  have lines: "filter (\<lambda>line. js_trim line \<noteq> []) (js_split (CHR 0x0A) manifest_direct) =
      [''teamA/svcA''] @ ''teamB/y'' # [''teamA/svcA'']"
    by (simp add: manifest_direct_def js_trim_def isWhiteSpace_def)
  have before: "processLines ?api ?d [''teamA/svcA''] (start teamB_server_hooked) = (Inr (), ?w1)"
    by (simp add: scenario_defs)
  have direct: "last (js_split CHR ''/'' ''teamB/y'') \<noteq> ''*''"
    by simp
  have fails: "createWebhook ?api ?d (js_join ''/'' (butlast (js_split CHR ''/'' ''teamB/y'')))
      (last (js_split CHR ''/'' ''teamB/y'')) ?w1 = (Inl (ApiError 500), ?w2)"
    by (simp add: scenario_defs)
  have run: "processRepositories ?api ?d (Inr manifest_direct) (start teamB_server_hooked) = (1, ?w2)"
    using failure_aborts_run [where api = ?api and dest = ?d and content = manifest_direct
        and finished = "[''teamA/svcA'']" and line = "''teamB/y''" and rest = "[''teamA/svcA'']"
        and w = "start teamB_server_hooked" and ?w1.0 = ?w1 and ?w2.0 = ?w2 and e = "ApiError 500"]
      lines before direct fails
    by blast
  let ?v = "snd (getAllGroupRepositories ?api ''teamB'' (start teamB_server_hooked))"
  let ?v1 = "snd (createWebhooks ?api ?d [\<lparr>repo_groupPath = ''teamB/sub'', repo_repoName = ''x''\<rparr>] ?v)"
  let ?v2 = "snd (createWebhook ?api ?d ''teamB'' ''y'' ?v1)"
  have lines': "filter (\<lambda>line. js_trim line \<noteq> []) (js_split (CHR 0x0A) manifest_wildcard) =
      [] @ ''teamB/*'' # [''teamA/svcA'']"
    by (simp add: manifest_wildcard_def js_trim_def isWhiteSpace_def)
  have before': "processLines ?api ?d [] (start teamB_server_hooked) = (Inr (), start teamB_server_hooked)"
    by simp
  have wildcard: "last (js_split CHR ''/'' ''teamB/*'') = ''*''"
    by simp
  have expansion: "getAllGroupRepositories ?api (js_join ''/'' (butlast (js_split CHR ''/'' ''teamB/*'')))
      (start teamB_server_hooked) =
      (Inr ([\<lparr>repo_groupPath = ''teamB/sub'', repo_repoName = ''x''\<rparr>] @
            \<lparr>repo_groupPath = ''teamB'', repo_repoName = ''y''\<rparr> # []), ?v)"
    by (simp add: scenario_defs)
  have reconciled: "createWebhooks ?api ?d [\<lparr>repo_groupPath = ''teamB/sub'', repo_repoName = ''x''\<rparr>] ?v =
      (Inr (), ?v1)"
    by (simp add: scenario_defs)
  have fails': "createWebhook ?api ?d
      (repo_groupPath \<lparr>repo_groupPath = ''teamB'', repo_repoName = ''y''\<rparr>)
      (repo_repoName \<lparr>repo_groupPath = ''teamB'', repo_repoName = ''y''\<rparr>) ?v1 = (Inl (ApiError 500), ?v2)"
    by (simp add: scenario_defs)
  have run': "processRepositories ?api ?d (Inr manifest_wildcard) (start teamB_server_hooked) = (1, ?v2)"
    using failure_aborts_run [where api = ?api and dest = ?d and content' = manifest_wildcard
        and finished' = "[]" and line' = "''teamB/*''" and rest' = "[''teamA/svcA'']"
        and w = "start teamB_server_hooked" and ?w1' = "start teamB_server_hooked" and ?w2' = ?v2
        and reconciled = "[\<lparr>repo_groupPath = ''teamB/sub'', repo_repoName = ''x''\<rparr>]"
        and repo = "\<lparr>repo_groupPath = ''teamB'', repo_repoName = ''y''\<rparr>" and remaining = "[]"
        and v = ?v and ?v1.0 = ?v1 and e = "ApiError 500"]
      lines' before' wildcard expansion reconciled fails'
    by blast
  have fetch: "ProjectHooks_all remove_rejected (''teamB'' @ ''/'' @ ''y'') (server (start teamB_server_hooked)) =
      (Inr [hook 5 ?d], teamB_server_hooked)"
    by (simp add: scenario_defs)
  have found: "find (\<lambda>hook. url hook = ?d) [hook 5 ?d] = Some (hook 5 ?d)"
    by (simp add: url_hook)
  have rejected: "ProjectHooks_remove remove_rejected (''teamB'' @ ''/'' @ ''y'') (hook_id (hook 5 ?d)) teamB_server_hooked =
      (Inl (ApiError 403), teamB_server_hooked)"
    by (simp add: scenario_defs)
  have delete: "createWebhook remove_rejected ?d ''teamB'' ''y'' (start teamB_server_hooked) =
      (Inl (ApiError 403),
       \<lparr>server = teamB_server_hooked,
         calls = calls (start teamB_server_hooked) @
           [Get_Project_Hooks (''teamB'' @ ''/'' @ ''y''),
            Delete_Project_Hook (''teamB'' @ ''/'' @ ''y'') (hook_id (hook 5 ?d))]\<rparr>)"
    using failure_aborts_run [where api = remove_rejected and dest = ?d and groupPath = "''teamB''"
        and repoName = "''y''" and u = "start teamB_server_hooked" and hs = "[hook 5 ?d]"
        and ?s1.0 = teamB_server_hooked and h = "hook 5 ?d" and e = "ApiError 403"
        and ?s2.0 = teamB_server_hooked]
      fetch found rejected
    by blast
  have unknown: "ProjectHooks_all memory_api (''teamC'' @ ''/'' @ ''z'') (server (start teamB_server_hooked)) =
      (Inl (ApiError 404), teamB_server_hooked)"
    by (simp add: scenario_defs)
  have fetch_fails: "createWebhook memory_api ?d ''teamC'' ''z'' (start teamB_server_hooked) =
      (Inl (ApiError 404),
       \<lparr>server = teamB_server_hooked,
         calls = calls (start teamB_server_hooked) @ [Get_Project_Hooks (''teamC'' @ ''/'' @ ''z'')]\<rparr>)"
    by (rule failure_aborts_run [where api = memory_api and dest = ?d and groupPath = "''teamC''"
        and repoName = "''z''" and u = "start teamB_server_hooked" and e = "ApiError 404"
        and ?s1.0 = teamB_server_hooked, THEN conjunct2, THEN conjunct2, THEN conjunct1,
        rule_format, OF unknown])
  show ?thesis
    unfolding run run' delete fetch_fails using lines by (simp add: scenario_defs)
qed

section \<open>Paging through the projects of a group\<close>

lemma fetchAllProjects_serves:
  assumes "serves api groupPath page pages (server w) s'"
  shows "fetchAllProjects api groupPath 100 page allProjects w =
           Some (Inr (allProjects @ concat pages),
                 \<lparr>server = s',
                  calls = calls w @ map (\<lambda>n. Get_Group_Projects_Page groupPath n 100 True)
                                      [page..<page + length pages]\<rparr>)"
  using assms
proof (induction pages arbitrary: page allProjects w)
  case Nil
  then show ?case by simp
next
  case (Cons ps pages)
  obtain r s1 where g: "get_groups_projects api groupPath page 100 True (server w) = (r, s1)"
    by (cases "get_groups_projects api groupPath page 100 True (server w)")
  obtain projects where r: "r = Inr projects"
    using Cons.prems g by (cases r) auto
  have ps: "projects = ps" using Cons.prems g r by simp
  let ?w1 = "\<lparr>server = s1, calls = calls w @ [Get_Group_Projects_Page groupPath page 100 True]\<rparr>"
  show ?case
  proof (cases "pages = []")
    case True
    then have "length ps < 100" "s1 = s'" using Cons.prems g r by simp_all
    then show ?thesis
      using g r ps True
      by (subst fetchAllProjects.simps) (simp add: request_def)
  next
    case False
    then have long: "100 \<le> length ps" and rest: "serves api groupPath (page + 1) pages (server ?w1) s'"
      using Cons.prems g r by simp_all
    have "fetchAllProjects api groupPath 100 page allProjects w =
          fetchAllProjects api groupPath 100 (page + 1) (allProjects @ ps) ?w1"
      using g r ps long
      by (subst fetchAllProjects.simps) (simp add: request_def)
    also have "\<dots> = Some (Inr ((allProjects @ ps) @ concat pages),
                 \<lparr>server = s',
                  calls = calls ?w1 @ map (\<lambda>n. Get_Group_Projects_Page groupPath n 100 True)
                                      [page + 1..<page + 1 + length pages]\<rparr>)"
      by (rule Cons.IH [OF rest])
    finally have run: "fetchAllProjects api groupPath 100 page allProjects w =
          Some (Inr ((allProjects @ ps) @ concat pages),
                 \<lparr>server = s',
                  calls = calls ?w1 @ map (\<lambda>n. Get_Group_Projects_Page groupPath n 100 True)
                                      [page + 1..<page + 1 + length pages]\<rparr>)" .
    have "[page..<page + length (ps # pages)] = page # [page + 1..<page + 1 + length pages]"
      by (simp add: upt_rec [of page] Suc_le_eq)
    then show ?thesis
      unfolding run by (simp add: Suc_le_eq)
  qed
qed

lemma getAllGroupRepositories_paged_serves:
  assumes "serves api groupPath 1 pages (server w) s'"
  shows "getAllGroupRepositories_paged api groupPath w =
           Some (Inr (map (\<lambda>project.
                        \<lparr>repo_groupPath = js_join ''/'' (butlast (js_split CHR ''/'' (path_with_namespace project))),
                         repo_repoName = last (js_split CHR ''/'' (path_with_namespace project))\<rparr>)
                      (concat pages)),
                 \<lparr>server = s',
                  calls = calls w @ map (\<lambda>page. Get_Group_Projects_Page groupPath page 100 True)
                                      [1..<1 + length pages]\<rparr>)"
  using fetchAllProjects_serves [OF assms, of "[]"]
  by (simp add: getAllGroupRepositories_paged_def Let_def)

section \<open>A wildcard line\<close>

lemma catalog_queries_append:
  "catalog_queries (xs @ ys) = catalog_queries xs @ catalog_queries ys"
  by (induction xs rule: catalog_queries.induct) simp_all

lemma createWebhook_extends_calls:
  "\<exists>cs. calls (snd (createWebhook api dest groupPath repoName w)) = calls w @ cs \<and> catalog_queries cs = []"
proof (cases rule: createWebhook_cases [where api = api and groupPath = groupPath and repoName = repoName and w = w and dest = dest])
  case (fetch_fails e s1)
  show ?thesis by (simp add: createWebhook_fetch_fails [OF fetch_fails])
next
  case (no_match hs s1 r s2)
  show ?thesis by (simp add: createWebhook_no_match [OF no_match])
next
  case (delete_fails hs s1 h e s2)
  show ?thesis by (simp add: createWebhook_delete_fails [OF delete_fails])
next
  case (match hs s1 h u s2 r s3)
  show ?thesis by (simp add: createWebhook_match [OF match])
qed

lemma createWebhooks_extends_calls:
  "\<exists>cs. calls (snd (createWebhooks api dest repositories w)) = calls w @ cs \<and> catalog_queries cs = []"
proof (induction repositories arbitrary: w)
  case Nil
  show ?case by simp
next
  case (Cons repo repositories)
  obtain r w1 where run: "createWebhook api dest (repo_groupPath repo) (repo_repoName repo) w = (r, w1)"
    by (cases "createWebhook api dest (repo_groupPath repo) (repo_repoName repo) w")
  obtain cs where cs: "calls w1 = calls w @ cs" "catalog_queries cs = []"
    using createWebhook_extends_calls [of api dest "repo_groupPath repo" "repo_repoName repo" w] run
    by auto
  show ?case
  proof (cases r)
    case (Inl e)
    then show ?thesis using run cs by simp
  next
    case (Inr webhook)
    obtain ds where "calls (snd (createWebhooks api dest repositories w1)) = calls w1 @ ds"
      "catalog_queries ds = []"
      using Cons.IH [of w1] by auto
    then have "calls (snd (createWebhooks api dest repositories w1)) = calls w @ (cs @ ds) \<and>
        catalog_queries (cs @ ds) = []"
      using cs by (simp add: catalog_queries_append)
    then show ?thesis using run Inr by auto
  qed
qed

lemma processLine_wildcard:
  assumes "last (js_split CHR ''/'' line) = ''*''"
  shows "processLine api dest line w =
           (case getAllGroupRepositories api (js_join ''/'' (butlast (js_split CHR ''/'' line))) w of
              (Inl e, w1) \<Rightarrow> (Inl e, w1)
            | (Inr repositories, w1) \<Rightarrow> createWebhooks api dest repositories w1)"
  using assms by (simp add: processLine_def Let_def)

lemma getAllGroupRepositories_result:
  "getAllGroupRepositories api groupPath w =
     (case Groups_projects api groupPath True 100 (server w) of
        (Inl e, s1) \<Rightarrow> (Inl e, \<lparr>server = s1, calls = calls w @ [Get_Group_Projects groupPath True 100]\<rparr>)
      | (Inr projects, s1) \<Rightarrow>
          (Inr (map (\<lambda>project.
                   \<lparr>repo_groupPath = js_join ''/'' (butlast (js_split CHR ''/'' (path_with_namespace project))),
                    repo_repoName = last (js_split CHR ''/'' (path_with_namespace project))\<rparr>) projects),
           \<lparr>server = s1, calls = calls w @ [Get_Group_Projects groupPath True 100]\<rparr>))"
  by (simp add: getAllGroupRepositories_def request_def Let_def split: prod.splits sum.splits)

lemma processLine_wildcard_one_query:
  assumes "last (js_split CHR ''/'' line) = ''*''"
  shows "catalog_queries (issued w (snd (processLine api dest line w))) =
           [js_join ''/'' (butlast (js_split CHR ''/'' line))]"
proof -
  let ?g = "js_join ''/'' (butlast (js_split CHR ''/'' line))"
  let ?w1 = "\<lambda>s1. \<lparr>server = s1, calls = calls w @ [Get_Group_Projects ?g True 100]\<rparr>"
  obtain r s1 where q: "Groups_projects api ?g True 100 (server w) = (r, s1)"
    by (cases "Groups_projects api ?g True 100 (server w)")
  show ?thesis
  proof (cases r)
    case (Inl e)
    then show ?thesis
      using q by (simp add: processLine_wildcard [OF assms] getAllGroupRepositories_result issued_def)
  next
    case (Inr projects)
    let ?rs = "map (\<lambda>project.
                   \<lparr>repo_groupPath = js_join ''/'' (butlast (js_split CHR ''/'' (path_with_namespace project))),
                    repo_repoName = last (js_split CHR ''/'' (path_with_namespace project))\<rparr>) projects"
    have pl: "processLine api dest line w = createWebhooks api dest ?rs (?w1 s1)"
      using q Inr by (simp add: processLine_wildcard [OF assms] getAllGroupRepositories_result)
    obtain cs where "calls (snd (createWebhooks api dest ?rs (?w1 s1))) = calls (?w1 s1) @ cs"
      "catalog_queries cs = []"
      using createWebhooks_extends_calls [of api dest ?rs "?w1 s1"] by auto
    then show ?thesis
      by (simp add: pl issued_def)
  qed
qed

lemma processLine_axios_wildcard:
  assumes "last (js_split CHR ''/'' line) = ''*''"
  shows "processLine_axios api dest line w =
           (case getAllGroupRepositories_paged api (js_join ''/'' (butlast (js_split CHR ''/'' line))) w of
              None \<Rightarrow> None
            | Some (Inl e, w1) \<Rightarrow> Some (Inl e, w1)
            | Some (Inr repositories, w1) \<Rightarrow> Some (createWebhooks_axios api dest repositories w1))"
  using assms by (simp add: processLine_axios_def Let_def)

lemma url_of_webhookConfig: "map_of (webhookConfig u) ''url'' = Some (JString u)"
  by (simp add: webhookConfig_def)

lemma memory_createWebhooks_succeeds:
  assumes "\<forall>repo\<in>set repositories.
      mem_hooks (server w) (repo_groupPath repo @ ''/'' @ repo_repoName repo) \<noteq> None"
  shows "fst (createWebhooks memory_api dest repositories w) = Inr ()"
  using assms
proof (induction repositories arbitrary: w)
  case Nil
  show ?case by simp
next
  case (Cons repo repositories)
  obtain hs where hs: "mem_hooks (server w) (repo_groupPath repo @ ''/'' @ repo_repoName repo) = Some hs"
    using Cons.prems by auto
  obtain webhook w1 where run: "createWebhook memory_api dest (repo_groupPath repo) (repo_repoName repo) w =
      (Inr webhook, w1)"
    and known: "\<forall>q. mem_hooks (server w) q \<noteq> None \<longrightarrow> mem_hooks (server w1) q \<noteq> None"
    using memory_createWebhook [OF hs, of dest] by simp
  have "\<forall>r\<in>set repositories. mem_hooks (server w1) (repo_groupPath r @ ''/'' @ repo_repoName r) \<noteq> None"
    using Cons.prems known by simp
  then have "fst (createWebhooks memory_api dest repositories w1) = Inr ()"
    by (rule Cons.IH)
  then show ?case using run by simp
qed

text \<open>
  C2, as the specification states it: for a wildcard line, pages of the projects of the
  group are requested until one has fewer items than the page size. The program of
  \<^verbatim>\<open>src/create-webhooks.ts\<close> calls the client library once, with \<^verbatim>\<open>per_page: 100\<close>, and
  leaves the paging to it. Below, the answer to that call has 100 items, which is not fewer
  than the page size, and the line is processed to its end with this one query of the
  catalog and no request for a second page.
\<close>

theorem wildcard_line_pages_counterexample:
  "last (js_split CHR ''/'' ''full/*'') = ''*'' \<and>
   fst (Groups_projects memory_api ''full'' True 100 (server (start full_server))) =
     Inr (replicate 100 (project 1 ''full/a'')) \<and>
   length (replicate 100 (project 1 ''full/a'')) = 100 \<and>
   catalog_queries (calls (snd (processLine memory_api ''https://hooks.example.com/in'' ''full/*''
     (start full_server)))) = [''full''] \<and>
   fst (processLine memory_api ''https://hooks.example.com/in'' ''full/*'' (start full_server)) = Inr ()"
proof -
  have w: "last (js_split CHR ''/'' ''full/*'') = ''*''"
    by simp
  have g: "js_join ''/'' (butlast (js_split CHR ''/'' ''full/*'')) = ''full''"
    by simp
  have "catalog_queries (issued (start full_server)
      (snd (processLine memory_api ''https://hooks.example.com/in'' ''full/*'' (start full_server)))) = [''full'']"
    using processLine_wildcard_one_query [OF w, of "start full_server" memory_api "''https://hooks.example.com/in''"]
    unfolding g .
  moreover have "fst (processLine memory_api ''https://hooks.example.com/in'' ''full/*'' (start full_server)) = Inr ()"
    unfolding processLine_wildcard [OF w] g
    by (simp add: getAllGroupRepositories_result memory_api_def [THEN arg_cong, of Groups_projects]
        mem_projects_def start_def full_server_def path_with_namespace_project
        memory_createWebhooks_succeeds)
  ultimately show ?thesis
    using w by (simp add: issued_def start_def memory_api_def mem_projects_def full_server_def)
qed

text \<open>
  C2, amended: for a wildcard line, the projects of the group made of the segments before
  the \<^verbatim>\<open>*\<close> are queried with page size 100 and subgroups included, and the repositories
  reconciled are one for every project returned, in the order returned, made from the
  project's \<^verbatim>\<open>path_with_namespace\<close>. The program of \<^verbatim>\<open>src/create-webhooks.ts\<close> issues
  exactly one query of the catalog for the line, whatever the client answers, and no
  request for a further page. The program that pages by itself, when the server answers
  the requests for the pages 1, 2, ... with the lists \<open>pages\<close>, the last of which is the
  first with fewer than 100 items, has a result for the line: it requests exactly these
  pages, in their order, and then reconciles the projects of all pages, concatenated in
  the order of the requests.
\<close>

theorem wildcard_line_expansion:
  assumes "last (js_split CHR ''/'' line) = ''*''"
  shows "catalog_queries (issued w (snd (processLine api dest line w))) =
           [js_join ''/'' (butlast (js_split CHR ''/'' line))] \<and>
         (Groups_projects api (js_join ''/'' (butlast (js_split CHR ''/'' line))) True 100 (server w) =
            (Inr projects, s1) \<longrightarrow>
          processLine api dest line w =
            createWebhooks api dest
              (map (\<lambda>project.
                 \<lparr>repo_groupPath = js_join ''/'' (butlast (js_split CHR ''/'' (path_with_namespace project))),
                  repo_repoName = last (js_split CHR ''/'' (path_with_namespace project))\<rparr>) projects)
              \<lparr>server = s1,
               calls = calls w @
                 [Get_Group_Projects (js_join ''/'' (butlast (js_split CHR ''/'' line))) True 100]\<rparr>) \<and>
         (serves ax (js_join ''/'' (butlast (js_split CHR ''/'' line))) 1 pages (server v) s' \<longrightarrow>
          processLine_axios ax dest line v =
            Some (createWebhooks_axios ax dest
              (map (\<lambda>project.
                 \<lparr>repo_groupPath = js_join ''/'' (butlast (js_split CHR ''/'' (path_with_namespace project))),
                  repo_repoName = last (js_split CHR ''/'' (path_with_namespace project))\<rparr>) (concat pages))
              \<lparr>server = s',
               calls = calls v @
                 map (\<lambda>page. Get_Group_Projects_Page (js_join ''/'' (butlast (js_split CHR ''/'' line))) page 100 True)
                   [1..<1 + length pages]\<rparr>))"
proof (intro conjI impI)
  show "catalog_queries (issued w (snd (processLine api dest line w))) =
           [js_join ''/'' (butlast (js_split CHR ''/'' line))]"
    by (rule processLine_wildcard_one_query [OF assms])
next
  assume "Groups_projects api (js_join ''/'' (butlast (js_split CHR ''/'' line))) True 100 (server w) =
            (Inr projects, s1)"
  then show "processLine api dest line w =
            createWebhooks api dest
              (map (\<lambda>project.
                 \<lparr>repo_groupPath = js_join ''/'' (butlast (js_split CHR ''/'' (path_with_namespace project))),
                  repo_repoName = last (js_split CHR ''/'' (path_with_namespace project))\<rparr>) projects)
              \<lparr>server = s1,
               calls = calls w @
                 [Get_Group_Projects (js_join ''/'' (butlast (js_split CHR ''/'' line))) True 100]\<rparr>"
    by (simp add: processLine_wildcard [OF assms] getAllGroupRepositories_result)
next
  assume "serves ax (js_join ''/'' (butlast (js_split CHR ''/'' line))) 1 pages (server v) s'"
  then show "processLine_axios ax dest line v =
            Some (createWebhooks_axios ax dest
              (map (\<lambda>project.
                 \<lparr>repo_groupPath = js_join ''/'' (butlast (js_split CHR ''/'' (path_with_namespace project))),
                  repo_repoName = last (js_split CHR ''/'' (path_with_namespace project))\<rparr>) (concat pages))
              \<lparr>server = s',
               calls = calls v @
                 map (\<lambda>page. Get_Group_Projects_Page (js_join ''/'' (butlast (js_split CHR ''/'' line))) page 100 True)
                   [1..<1 + length pages]\<rparr>)"
    by (simp add: processLine_axios_wildcard [OF assms] getAllGroupRepositories_paged_serves)
qed


theorem wildcard_line_expansion_witness:
  "last (js_split CHR ''/'' ''teamB/*'') = ''*'' \<and>
   Groups_projects memory_api (js_join ''/'' (butlast (js_split CHR ''/'' ''teamB/*''))) True 100
       (server (start teamB_server)) =
     (Inr [project 1 ''teamB/sub/x'', project 2 ''teamB/y''], teamB_server) \<and>
   fst (processLine memory_api ''https://hooks.example.com/in'' ''teamB/*'' (start teamB_server)) = Inr () \<and>
   calls (snd (processLine memory_api ''https://hooks.example.com/in'' ''teamB/*'' (start teamB_server))) =
     [Get_Group_Projects ''teamB'' True 100,
      Get_Project_Hooks ''teamB/sub/x'',
      Create_Project_Hook ''teamB/sub/x'' ''https://hooks.example.com/in'' (webhookConfig ''https://hooks.example.com/in''),
      Get_Project_Hooks ''teamB/y'',
      Create_Project_Hook ''teamB/y'' ''https://hooks.example.com/in'' (webhookConfig ''https://hooks.example.com/in'')] \<and>
   serves (memory_axios [(1, ''teamB/sub/x''), (2, ''teamB/y'')])
       (js_join ''/'' (butlast (js_split CHR ''/'' ''teamB/*''))) 1
       [[project 1 ''teamB/sub/x'', project 2 ''teamB/y'']] (server (start teamB_server)) teamB_server \<and>
   map_option fst (processLine_axios (memory_axios [(1, ''teamB/sub/x''), (2, ''teamB/y'')])
       ''https://hooks.example.com/in'' ''teamB/*'' (start teamB_server)) = Some (Inr ()) \<and>
   map_option (\<lambda>result. calls (snd result))
       (processLine_axios (memory_axios [(1, ''teamB/sub/x''), (2, ''teamB/y'')])
          ''https://hooks.example.com/in'' ''teamB/*'' (start teamB_server)) =
     Some [Get_Group_Projects_Page ''teamB'' 1 100 True,
           Get_Project ''teamB/sub/x'', Get_Hooks 1,
           Post_Hook 1 (webhookConfig ''https://hooks.example.com/in''),
           Get_Project ''teamB/y'', Get_Hooks 2,
           Post_Hook 2 (webhookConfig ''https://hooks.example.com/in'')] \<and>
   last (js_split CHR ''/'' ''big/*'') = ''*'' \<and>
   serves (memory_axios [(1, ''big/a''), (2, ''big/sub/b'')])
       (js_join ''/'' (butlast (js_split CHR ''/'' ''big/*''))) 1
       [replicate 100 (project 1 ''big/a''), [project 2 ''big/sub/b'']] (server (start big_server)) big_server \<and>
   processLine_axios (memory_axios [(1, ''big/a''), (2, ''big/sub/b'')])
       ''https://hooks.example.com/in'' ''big/*'' (start big_server) =
     Some (createWebhooks_axios (memory_axios [(1, ''big/a''), (2, ''big/sub/b'')]) ''https://hooks.example.com/in''
       (replicate 100 \<lparr>repo_groupPath = ''big'', repo_repoName = ''a''\<rparr> @
        [\<lparr>repo_groupPath = ''big/sub'', repo_repoName = ''b''\<rparr>])
       \<lparr>server = big_server,
        calls = [Get_Group_Projects_Page ''big'' 1 100 True, Get_Group_Projects_Page ''big'' 2 100 True]\<rparr>)"
proof -
  let ?d = "''https://hooks.example.com/in''"
  let ?ax = "memory_axios [(1, ''teamB/sub/x''), (2, ''teamB/y'')]"
  let ?big = "memory_axios [(1, ''big/a''), (2, ''big/sub/b'')]"
  have wild: "last (js_split CHR ''/'' ''teamB/*'') = ''*''"
    by simp
  have wild': "last (js_split CHR ''/'' ''big/*'') = ''*''"
    by simp
  have answer: "Groups_projects memory_api (js_join ''/'' (butlast (js_split CHR ''/'' ''teamB/*''))) True 100
       (server (start teamB_server)) =
     (Inr [project 1 ''teamB/sub/x'', project 2 ''teamB/y''], teamB_server)"
    by (simp add: memory_api_def mem_projects_def start_def teamB_server_def)
  have page: "serves ?ax (js_join ''/'' (butlast (js_split CHR ''/'' ''teamB/*''))) 1
       [[project 1 ''teamB/sub/x'', project 2 ''teamB/y'']] (server (start teamB_server)) teamB_server"
    by (simp add: memory_axios_def mem_projects_page_def start_def teamB_server_def)
  have pages: "serves ?big (js_join ''/'' (butlast (js_split CHR ''/'' ''big/*''))) 1
       [replicate 100 (project 1 ''big/a''), [project 2 ''big/sub/b'']] (server (start big_server)) big_server"
    by (simp add: memory_axios_def mem_projects_page_def start_def big_server_def)
  note library = wildcard_line_expansion [OF wild, where api = memory_api and dest = ?d
      and w = "start teamB_server" and projects = "[project 1 ''teamB/sub/x'', project 2 ''teamB/y'']"
      and ?s1.0 = teamB_server and ax = ?ax and v = "start teamB_server"
      and pages = "[[project 1 ''teamB/sub/x'', project 2 ''teamB/y'']]" and s' = teamB_server]
  note paging = wildcard_line_expansion [OF wild', where api = memory_api and dest = ?d
      and w = "start big_server" and ax = ?big and v = "start big_server"
      and pages = "[replicate 100 (project 1 ''big/a''), [project 2 ''big/sub/b'']]" and s' = big_server]
  have run: "processLine memory_api ?d ''teamB/*'' (start teamB_server) =
      createWebhooks memory_api ?d
        [\<lparr>repo_groupPath = ''teamB/sub'', repo_repoName = ''x''\<rparr>,
         \<lparr>repo_groupPath = ''teamB'', repo_repoName = ''y''\<rparr>]
        \<lparr>server = teamB_server, calls = [Get_Group_Projects ''teamB'' True 100]\<rparr>"
    using library [THEN conjunct2, THEN conjunct1, rule_format, OF answer]
    by (simp add: path_with_namespace_project start_def)
  have run_axios: "processLine_axios ?ax ?d ''teamB/*'' (start teamB_server) =
      Some (createWebhooks_axios ?ax ?d
        [\<lparr>repo_groupPath = ''teamB/sub'', repo_repoName = ''x''\<rparr>,
         \<lparr>repo_groupPath = ''teamB'', repo_repoName = ''y''\<rparr>]
        \<lparr>server = teamB_server, calls = [Get_Group_Projects_Page ''teamB'' 1 100 True]\<rparr>)"
    using library [THEN conjunct2, THEN conjunct2, rule_format, OF page]
    by (simp add: path_with_namespace_project start_def)
  have run_big: "processLine_axios ?big ?d ''big/*'' (start big_server) =
     Some (createWebhooks_axios ?big ?d
       (replicate 100 \<lparr>repo_groupPath = ''big'', repo_repoName = ''a''\<rparr> @
        [\<lparr>repo_groupPath = ''big/sub'', repo_repoName = ''b''\<rparr>])
       \<lparr>server = big_server,
        calls = [Get_Group_Projects_Page ''big'' 1 100 True, Get_Group_Projects_Page ''big'' 2 100 True]\<rparr>)"
    using paging [THEN conjunct2, THEN conjunct2, rule_format, OF pages]
    by (simp add: path_with_namespace_project start_def upt_conv_Cons map_replicate numeral_2_eq_2 [symmetric])
  have status: "fst (processLine memory_api ?d ''teamB/*'' (start teamB_server)) = Inr ()"
    unfolding run by (simp add: eval_defs teamB_server_def)
  have trace: "calls (snd (processLine memory_api ?d ''teamB/*'' (start teamB_server))) =
     [Get_Group_Projects ''teamB'' True 100,
      Get_Project_Hooks ''teamB/sub/x'',
      Create_Project_Hook ''teamB/sub/x'' ?d (webhookConfig ?d),
      Get_Project_Hooks ''teamB/y'',
      Create_Project_Hook ''teamB/y'' ?d (webhookConfig ?d)]"
    unfolding run by (simp add: eval_defs teamB_server_def)
  have status_axios: "map_option fst (processLine_axios ?ax ?d ''teamB/*'' (start teamB_server)) = Some (Inr ())"
    unfolding run_axios
    by (simp add: eval_defs teamB_server_def memory_axios_def createWebhook_axios_def getProjectId_def
        project_def url_of_webhookConfig)
  have trace_axios: "map_option (\<lambda>result. calls (snd result))
       (processLine_axios ?ax ?d ''teamB/*'' (start teamB_server)) =
     Some [Get_Group_Projects_Page ''teamB'' 1 100 True,
           Get_Project ''teamB/sub/x'', Get_Hooks 1, Post_Hook 1 (webhookConfig ?d),
           Get_Project ''teamB/y'', Get_Hooks 2, Post_Hook 2 (webhookConfig ?d)]"
    unfolding run_axios
    by (simp add: eval_defs teamB_server_def memory_axios_def createWebhook_axios_def getProjectId_def
        project_def url_of_webhookConfig)
  show ?thesis
    by (intro conjI; fact)
qed

end
